theory Spec2Isabelle
  imports Complex_Main
begin

section \<open>Faults\<close>

text \<open>
  The Python exceptions the modelled functions can raise. A function that may raise
  returns \<open>error + 'a\<close>, with \<open>Inl\<close> carrying the exception.
\<close>

datatype error = KeyError string | ValueError string | ZeroDivisionError

definition err_bind :: "error + 'a \<Rightarrow> ('a \<Rightarrow> error + 'b) \<Rightarrow> error + 'b" where
  "err_bind m f = (case m of Inl e \<Rightarrow> Inl e | Inr x \<Rightarrow> f x)"

definition lookup :: "(string \<rightharpoonup> 'v) \<Rightarrow> string \<Rightarrow> error + 'v" where
  \<comment> \<open>\<open>d[k]\<close> on a dict: KeyError when the key is absent.\<close>
  "lookup d k = (case d k of None \<Rightarrow> Inl (KeyError k) | Some v \<Rightarrow> Inr v)"

section \<open>RollbackHandler (src/deployment/rollback\_handler.py)\<close>

text \<open>
  The result of one rollback step is a dict with a \<open>success\<close> entry; the handler's own
  except branch builds \<open>{'step': step, 'success': False, 'error': str(e)}\<close>.
\<close>

record 's step_result =
  step :: 's
  success :: bool
  error_msg :: "string option"

text \<open>
  \<open>_execute_rollback_step\<close> either returns a result or raises; the exception's text is
  what \<open>str(e)\<close> gives.
\<close>

datatype 's step_outcome = Returned "'s step_result" | Raised string

record ('p, 's, 'v) rollback_plan =
  previous_state :: 'p
  rollback_steps :: "'s list"
  verification_points :: "'v list"

record 's rollback_result =
  steps_executed :: nat
  rb_success :: bool
  results :: "'s step_result list"

text \<open>
  \<open>_execute_rollback_step\<close> acts on the cluster: it is a function of the step and the
  world \<open>'w\<close>, returning its outcome and the world it leaves behind.
\<close>

type_synonym ('s, 'w) step_executor = "'s \<Rightarrow> 'w \<Rightarrow> 's step_outcome \<times> 'w"

text \<open>
  The for loop of \<open>_execute_rollback\<close> (lines 85-100): \<open>acc\<close> is the list \<open>results\<close>.
  A returned result is appended and the loop breaks when its \<open>success\<close> is false; an
  exception appends the failure entry and breaks.
\<close>

fun rollback_loop ::
  "('s, 'w) step_executor \<Rightarrow> 's list \<Rightarrow> 's step_result list \<Rightarrow> 'w
     \<Rightarrow> 's step_result list \<times> 'w"
where
  "rollback_loop exec [] acc w = (acc, w)"
| "rollback_loop exec (s # rest) acc w =
     (case exec s w of
        (Returned r, w') \<Rightarrow>
          if \<not> success r then (acc @ [r], w')
          else rollback_loop exec rest (acc @ [r]) w'
      | (Raised e, w') \<Rightarrow>
          (acc @ [\<lparr>step = s, success = False, error_msg = Some e\<rparr>], w'))"

definition execute_rollback ::
  "('s, 'w) step_executor \<Rightarrow> ('p, 's, 'v) rollback_plan \<Rightarrow> 'w \<Rightarrow> 's rollback_result \<times> 'w"
where
  "execute_rollback exec plan w =
     (case rollback_loop exec (rollback_steps plan) [] w of
        (rs, w') \<Rightarrow>
          (\<lparr>steps_executed = length rs, rb_success = list_all success rs, results = rs\<rparr>, w'))"

text \<open>
  To speak about which steps were attempted, an executor is wrapped so that every call
  is written to a log kept beside the world: the step and the outcome of the call.
\<close>

definition logged ::
  "('s, 'w) step_executor \<Rightarrow> ('s, 'w \<times> ('s \<times> 's step_outcome) list) step_executor"
where
  "logged exec s wl =
     (case exec s (fst wl) of (out, w') \<Rightarrow> (out, (w', snd wl @ [(s, out)])))"

text \<open>A step fails when it returns \<open>success = False\<close> or raises.\<close>

fun failed :: "'s step_outcome \<Rightarrow> bool" where
  "failed (Returned r) = (\<not> success r)"
| "failed (Raised e) = True"

text \<open>The entry of \<open>results\<close> that a logged call leaves.\<close>

fun result_of :: "'s \<times> 's step_outcome \<Rightarrow> 's step_result" where
  "result_of (s, Returned r) = r"
| "result_of (s, Raised e) = \<lparr>step = s, success = False, error_msg = Some e\<rparr>"

text \<open>
  A plan of three steps whose second step reports failure and whose third would succeed;
  the world counts the calls.
\<close>

definition demo_plan :: "(unit, string, unit) rollback_plan" where
  "demo_plan = \<lparr>previous_state = (), rollback_steps = [''restore-traffic'', ''restore-revision'', ''cleanup''],
     verification_points = []\<rparr>"

definition demo_exec :: "(string, nat) step_executor" where
  "demo_exec s w =
     (Returned \<lparr>step = s, success = (s \<noteq> ''restore-revision''), error_msg = None\<rparr>, Suc w)"

subsection \<open>The step executor\<close>

text \<open>
  Modelled from the spec: \<open>_execute_rollback_step\<close> is called by \<open>_execute_rollback\<close> but
  is not in the sources. The specification gives the cluster manager two operations,
  \<open>ApplyRollbackStep(step) \<rightarrow> Result\<close> and \<open>Verify(step) \<rightarrow> bool\<close>, and says that each
  executed step is independently verified (a post-condition check) before the next step
  runs, verification failure being treated identically to execution failure. So the
  step executor applies the step and, unless that raised, verifies it; the result
  reports success when both did.
\<close>

definition execute_rollback_step ::
  "('s, 'w) step_executor \<Rightarrow> ('s \<Rightarrow> 'w \<Rightarrow> bool \<times> 'w) \<Rightarrow> ('s, 'w) step_executor"
where
  "execute_rollback_step apply_step verify s w =
     (case apply_step s w of
        (Raised e, w1) \<Rightarrow> (Raised e, w1)
      | (Returned r, w1) \<Rightarrow>
          (case verify s w1 of (ok, w2) \<Rightarrow> (Returned (r\<lparr>success := success r \<and> ok\<rparr>), w2)))"

text \<open>
  A logged call of the cluster manager: the operation, the step, whether it reported
  success. The two operations are wrapped so that every call is written to a log beside
  the world.
\<close>

datatype op = ApplyOp | VerifyOp

type_synonym 's call = "op \<times> 's \<times> bool"

definition log_apply ::
  "('s, 'w) step_executor \<Rightarrow> ('s, 'w \<times> 's call list) step_executor"
where
  "log_apply apply_step s wl =
     (case apply_step s (fst wl) of
        (out, w') \<Rightarrow> (out, (w', snd wl @ [(ApplyOp, s, \<not> failed out)])))"

definition log_verify ::
  "('s \<Rightarrow> 'w \<Rightarrow> bool \<times> 'w) \<Rightarrow> 's \<Rightarrow> 'w \<times> 's call list \<Rightarrow> bool \<times> 'w \<times> 's call list"
where
  "log_verify verify s wl =
     (case verify s (fst wl) of (ok, w') \<Rightarrow> (ok, (w', snd wl @ [(VerifyOp, s, ok)])))"

text \<open>The calls of a full run: each step applied, then verified, in the plan's order.\<close>

definition expected_calls :: "'s list \<Rightarrow> (op \<times> 's) list" where
  "expected_calls steps = concat (map (\<lambda>s. [(ApplyOp, s), (VerifyOp, s)]) steps)"

definition call_kind :: "'s call \<Rightarrow> op \<times> 's" where
  "call_kind c = (fst c, fst (snd c))"

definition call_ok :: "'s call \<Rightarrow> bool" where
  "call_ok c = snd (snd c)"

text \<open>
  Every step of the three-step plan applies cleanly; the verification of the second
  step fails.
\<close>

definition demo_apply :: "(string, nat) step_executor" where
  "demo_apply s w = (Returned \<lparr>step = s, success = True, error_msg = None\<rparr>, Suc w)"

definition demo_verify :: "string \<Rightarrow> nat \<Rightarrow> bool \<times> nat" where
  "demo_verify s w = (s \<noteq> ''restore-revision'', w)"

section \<open>AIAnomalyDetector (src/monitoring/ai\_anomaly\_detector.py)\<close>

text \<open>
  A history entry \<open>{'timestamp': ..., 'value': ...}\<close>. A \<open>datetime\<close> is the number of
  microseconds since the epoch, the resolution Python keeps; metric values are reals.
\<close>

record point =
  pt_timestamp :: int
  pt_value :: real

text \<open>The dict \<open>_check_metric_anomaly\<close> returns for an anomalous value.\<close>

record anomaly =
  metric :: string
  current_value :: real
  severity :: string
  confidence :: real
  timestamp :: int
  suggested_actions :: "string list"

text \<open>
  The configuration keys the detector reads. (\<open>sensitivity\<close> only parametrises the
  isolation forest, which is a parameter of the model below.)
\<close>

record detector_config =
  anomaly_threshold :: real
  training_period_days :: int
  minimum_datapoints :: int

text \<open>\<open>self.history\<close>: metric name to the list of its entries, oldest first.\<close>

type_synonym history = "string \<rightharpoonup> point list"

text \<open>
  The isolation forest is scikit-learn's: \<open>self.model.fit(X)\<close> on the historical values
  followed by \<open>self.model.score_samples([[current_value]])[0]\<close> is a parameter, a function
  of the historical values and the current value that returns the score or raises.
\<close>

type_synonym scorer = "real list \<Rightarrow> real \<Rightarrow> error + real"

definition calculate_severity :: "real \<Rightarrow> string" where
  "calculate_severity anomaly_score =
     (let score = \<bar>anomaly_score\<bar> in
      if score > 0.8 then ''critical''
      else if score > 0.6 then ''high''
      else if score > 0.4 then ''medium''
      else ''low'')"

definition calculate_confidence :: "real \<Rightarrow> real" where
  "calculate_confidence anomaly_score = min (\<bar>anomaly_score\<bar> * 100) 99.9"

definition suggest_actions :: "string \<Rightarrow> real \<Rightarrow> string \<Rightarrow> string list" where
  "suggest_actions metric_name v sev =
     (if metric_name = ''cpu_usage'' then
        (if v > 90 then
           [''Scale up the service horizontally'', ''Check for CPU-intensive processes'',
            ''Review recent deployments'', ''Analyze application profiling data'']
         else if v < 10 then
           [''Consider scaling down to optimize resources'', ''Check for service availability'',
            ''Verify monitoring setup'']
         else [])
      else if metric_name = ''memory_usage'' then
        (if v > 85 then
           [''Investigate potential memory leaks'', ''Consider increasing memory allocation'',
            ''Review garbage collection metrics'', ''Analyze heap dumps'']
         else [])
      else if metric_name = ''error_rate'' then
        (if v > 5 then
           [''Review error logs'', ''Check dependent services'', ''Analyze recent changes'',
            ''Consider rolling back recent deployment'']
         else [])
      else [])
     @ (if sev = ''critical'' then
          [''Escalate to on-call team immediately'', ''Prepare incident response'',
           ''Consider automated remediation'']
        else if sev = ''high'' then
          [''Monitor closely for next hour'', ''Prepare for potential escalation'',
           ''Review related metrics'']
        else [])"

definition check_metric_anomaly ::
  "detector_config \<Rightarrow> scorer \<Rightarrow> int \<Rightarrow> history \<Rightarrow> string \<Rightarrow> real \<Rightarrow> error + anomaly option"
where
  "check_metric_anomaly cfg score_samples now h metric_name v =
     err_bind (lookup h metric_name) (\<lambda>pts.
     err_bind (score_samples (map pt_value pts) v) (\<lambda>anomaly_score.
       if anomaly_score < - anomaly_threshold cfg then
         Inr (Some \<lparr>metric = metric_name, current_value = v,
                    severity = calculate_severity anomaly_score,
                    confidence = calculate_confidence anomaly_score,
                    timestamp = now,
                    suggested_actions =
                      suggest_actions metric_name v (calculate_severity anomaly_score)\<rparr>)
       else Inr None))"

text \<open>
  The window of a metric: its list in \<open>self.history\<close>, empty when the metric has no entry.
\<close>

definition window :: "history \<Rightarrow> string \<Rightarrow> point list" where
  "window h metric_name = (case h metric_name of None \<Rightarrow> [] | Some pts \<Rightarrow> pts)"

definition microseconds_per_day :: int where
  "microseconds_per_day = 86400000000"

text \<open>
  Lines 47-59 of \<open>detect_anomalies\<close>: create the list if the metric is new, append the
  sample stamped with the call time, and keep the entries newer than the cutoff.
\<close>

definition update_history :: "detector_config \<Rightarrow> int \<Rightarrow> string \<Rightarrow> real \<Rightarrow> history \<Rightarrow> history" where
  "update_history cfg now metric_name v h =
     (let pts = window h metric_name @ [\<lparr>pt_timestamp = now, pt_value = v\<rparr>];
          cutoff_time = now - training_period_days cfg * microseconds_per_day
      in h(metric_name \<mapsto> filter (\<lambda>p. pt_timestamp p > cutoff_time) pts))"

text \<open>
  The body of the for loop (lines 47-65) for one metric: the history is updated, and the
  value is scored only if the window holds at least \<open>minimum_datapoints\<close> entries. The
  result is the fault, or the anomaly if there is one, and the updated history (which an
  exception leaves updated, since \<open>self.history\<close> is mutated in place).
\<close>

definition observe_metric ::
  "detector_config \<Rightarrow> scorer \<Rightarrow> int \<Rightarrow> string \<Rightarrow> real \<Rightarrow> history
     \<Rightarrow> (error + anomaly option) \<times> history"
where
  "observe_metric cfg score_samples now metric_name v h =
     (let h' = update_history cfg now metric_name v h in
      if int (length (window h' metric_name)) \<ge> minimum_datapoints cfg
      then (check_metric_anomaly cfg score_samples now h' metric_name v, h')
      else (Inr None, h'))"

text \<open>
  \<open>metrics\<close> is a dict: the list of its items in iteration order, with distinct keys.
  The wall clock is read once per call (\<open>current_time\<close>); \<open>now\<close> is that reading. The
  later reading in \<open>_check_metric_anomaly\<close>, which only stamps the anomaly, is taken to be
  the same.
\<close>

fun detect_loop ::
  "detector_config \<Rightarrow> scorer \<Rightarrow> int \<Rightarrow> (string \<times> real) list \<Rightarrow> history \<Rightarrow> anomaly list
     \<Rightarrow> (error + anomaly list) \<times> history"
where
  "detect_loop cfg sc now [] h anomalies = (Inr anomalies, h)"
| "detect_loop cfg sc now ((metric_name, v) # rest) h anomalies =
     (case observe_metric cfg sc now metric_name v h of
        (Inl e, h') \<Rightarrow> (Inl e, h')
      | (Inr None, h') \<Rightarrow> detect_loop cfg sc now rest h' anomalies
      | (Inr (Some a), h') \<Rightarrow> detect_loop cfg sc now rest h' (anomalies @ [a]))"

definition detect_anomalies ::
  "detector_config \<Rightarrow> scorer \<Rightarrow> int \<Rightarrow> (string \<times> real) list \<Rightarrow> history
     \<Rightarrow> (error + anomaly list) \<times> history"
where
  "detect_anomalies cfg sc now metrics h = detect_loop cfg sc now metrics h []"

text \<open>The anomalies one loop iteration appends to the result.\<close>

definition found :: "error + anomaly option \<Rightarrow> anomaly list" where
  "found r = (case r of Inr (Some a) \<Rightarrow> [a] | _ \<Rightarrow> [])"

text \<open>
  A scorer for the examples. Like scikit-learn it raises ValueError when fitted on no
  samples; it scores a value above 90 at -0.7 and any other at -0.3.
\<close>

definition demo_score :: scorer where
  "demo_score hist v =
     (if hist = [] then Inl (ValueError ''Found array with 0 sample(s)'')
      else if v > 90 then Inr (- 0.7) else Inr (- 0.3))"

definition demo_detector_config :: detector_config where
  "demo_detector_config = \<lparr>anomaly_threshold = 0.5, training_period_days = 1, minimum_datapoints = 2\<rparr>"

definition degenerate_detector_config :: detector_config where
  "degenerate_detector_config = \<lparr>anomaly_threshold = 0.5, training_period_days = 0, minimum_datapoints = 0\<rparr>"

section \<open>AlertManager (src/monitoring/alert\_manager.py)\<close>

text \<open>The dict \<open>severity_levels\<close> of \<open>_should_alert\<close>.\<close>

definition severity_levels :: "string \<rightharpoonup> nat" where
  "severity_levels = [''critical'' \<mapsto> 4, ''high'' \<mapsto> 3, ''medium'' \<mapsto> 2, ''low'' \<mapsto> 1]"

text \<open>
  The configuration: \<open>alert_channels\<close> is a dict from channel name to the channel's
  settings, of which the dispatch reads \<open>severity_levels\<close>.
\<close>

record channel_config =
  channel_severity_levels :: "string list"

record alert_config =
  alert_cooldown :: real
  minimum_severity :: string
  notification_templates :: "string \<rightharpoonup> string"
  alert_channels :: "(string \<times> channel_config) list"

text \<open>
  The dict \<open>_create_alert\<close> builds. The id is \<open>alert-\<close> followed by the clock reading, kept
  here as the reading; the timestamp is the clock reading, which \<open>isoformat\<close> and
  \<open>fromisoformat\<close> carry unchanged.
\<close>

record alert =
  alert_id :: int
  alert_metric :: string
  alert_value :: real
  alert_severity :: string
  alert_confidence :: real
  alert_timestamp :: int
  description :: string
  actions :: "string list"

text \<open>
  The manager's state: \<open>alert_history\<close>, and the record of what \<open>_send_alerts\<close> handed to
  the channels (the channel and the alert, one entry per send).
\<close>

record alert_manager =
  alert_history :: "alert list"
  dispatched :: "(string \<times> alert) list"

text \<open>\<open>timedelta.total_seconds()\<close> of a difference in microseconds.\<close>

definition total_seconds :: "int \<Rightarrow> real" where
  "total_seconds delta = real_of_int delta / 1000000"

text \<open>
  \<open>_should_alert\<close>; \<open>now\<close> is the reading of \<open>datetime.now()\<close> while the anomaly is handled
  (the readings taken for one anomaly, here and in \<open>_create_alert\<close>, are taken to be
  equal). The function returns before the severity look-ups when a recent alert exists.
\<close>

definition should_alert :: "alert_config \<Rightarrow> int \<Rightarrow> alert list \<Rightarrow> anomaly \<Rightarrow> error + bool" where
  "should_alert cfg now history a =
     (let recent_alerts =
            filter (\<lambda>al. alert_metric al = metric a
                          \<and> total_seconds (now - alert_timestamp al) < alert_cooldown cfg) history
      in if recent_alerts \<noteq> [] then Inr False
         else err_bind (lookup severity_levels (severity a)) (\<lambda>level.
              err_bind (lookup severity_levels (minimum_severity cfg)) (\<lambda>minimum.
                Inr (level \<ge> minimum))))"

text \<open>
  \<open>dict.get(key, default)\<close> evaluates its default first: a missing \<open>default\<close> template is
  a KeyError even when the severity has a template.
\<close>

definition generate_alert_description :: "alert_config \<Rightarrow> anomaly \<Rightarrow> error + string" where
  "generate_alert_description cfg a =
     err_bind (lookup (notification_templates cfg) ''default'') (\<lambda>default_template.
       Inr (case notification_templates cfg (severity a) of
              None \<Rightarrow> default_template
            | Some template \<Rightarrow> template))"

definition create_alert :: "alert_config \<Rightarrow> int \<Rightarrow> anomaly \<Rightarrow> error + alert" where
  "create_alert cfg now a =
     err_bind (generate_alert_description cfg a) (\<lambda>d.
       Inr \<lparr>alert_id = now, alert_metric = metric a, alert_value = current_value a,
            alert_severity = severity a, alert_confidence = confidence a,
            alert_timestamp = now, description = d, actions = suggested_actions a\<rparr>)"

definition is_channel_appropriate :: "alert_config \<Rightarrow> string \<Rightarrow> string \<Rightarrow> error + bool" where
  "is_channel_appropriate cfg channel sev =
     err_bind (lookup (map_of (alert_channels cfg)) channel) (\<lambda>channel_config.
       Inr (sev \<in> set (channel_severity_levels channel_config)))"

text \<open>
  \<open>_send_alerts\<close>: one task per channel whose settings list the alert's severity. Every
  task is run by \<open>asyncio.gather\<close>, and \<open>_send_to_channel\<close> catches whatever the delivery
  raises, so each task is one send and nothing is raised.
\<close>

fun collect_tasks :: "alert_config \<Rightarrow> alert \<Rightarrow> (string \<times> channel_config) list \<Rightarrow> error + string list" where
  "collect_tasks cfg al [] = Inr []"
| "collect_tasks cfg al ((channel, config) # rest) =
     err_bind (is_channel_appropriate cfg channel (alert_severity al)) (\<lambda>ok.
     err_bind (collect_tasks cfg al rest) (\<lambda>tasks.
       Inr (if ok then channel # tasks else tasks)))"

definition send_alerts :: "alert_config \<Rightarrow> alert \<Rightarrow> alert_manager \<Rightarrow> error option \<times> alert_manager" where
  "send_alerts cfg al st =
     (case collect_tasks cfg al (alert_channels cfg) of
        Inl e \<Rightarrow> (Some e, st)
      | Inr tasks \<Rightarrow> (None, st\<lparr>dispatched := dispatched st @ map (\<lambda>channel. (channel, al)) tasks\<rparr>))"

text \<open>
  The body of the loop of \<open>process_anomalies\<close> (lines 29-32). The result is the exception,
  if one is raised, and the state, which is mutated in place.
\<close>

definition process_anomaly ::
  "alert_config \<Rightarrow> int \<Rightarrow> anomaly \<Rightarrow> alert_manager \<Rightarrow> error option \<times> alert_manager"
where
  "process_anomaly cfg now a st =
     (case should_alert cfg now (alert_history st) a of
        Inl e \<Rightarrow> (Some e, st)
      | Inr False \<Rightarrow> (None, st)
      | Inr True \<Rightarrow>
          (case create_alert cfg now a of
             Inl e \<Rightarrow> (Some e, st)
           | Inr al \<Rightarrow>
               (case send_alerts cfg al st of
                  (Some e, st') \<Rightarrow> (Some e, st')
                | (None, st') \<Rightarrow> (None, st'\<lparr>alert_history := alert_history st' @ [al]\<rparr>))))"

text \<open>Each anomaly comes with the reading of the clock at the time it is handled.\<close>

fun process_anomalies ::
  "alert_config \<Rightarrow> (int \<times> anomaly) list \<Rightarrow> alert_manager \<Rightarrow> error option \<times> alert_manager"
where
  "process_anomalies cfg [] st = (None, st)"
| "process_anomalies cfg ((now, a) # rest) st =
     (case process_anomaly cfg now a st of
        (Some e, st') \<Rightarrow> (Some e, st')
      | (None, st') \<Rightarrow> process_anomalies cfg rest st')"

text \<open>
  The cooldown is clear: every alert of the history for the same metric is at least
  \<open>alert_cooldown\<close> seconds old.
\<close>

definition cooldown_clear :: "alert_config \<Rightarrow> int \<Rightarrow> alert list \<Rightarrow> anomaly \<Rightarrow> bool" where
  "cooldown_clear cfg now history a =
     list_all (\<lambda>al. alert_metric al = metric a \<longrightarrow>
                 alert_cooldown cfg \<le> total_seconds (now - alert_timestamp al)) history"

text \<open>
  The anomaly is severe enough: its severity is at least \<open>minimum_severity\<close>, in the order
  of \<open>severity_levels\<close>.
\<close>

definition severe_enough :: "alert_config \<Rightarrow> anomaly \<Rightarrow> bool" where
  "severe_enough cfg a =
     (case (severity_levels (severity a), severity_levels (minimum_severity cfg)) of
        (Some level, Some minimum) \<Rightarrow> minimum \<le> level
      | _ \<Rightarrow> False)"

text \<open>
  A configuration with a cooldown of five minutes and minimum severity medium, and the
  alert it produces for a high \<open>cpu_usage\<close> anomaly at time 0.
\<close>

definition demo_alert_config :: alert_config where
  "demo_alert_config =
     \<lparr>alert_cooldown = 300, minimum_severity = ''medium'',
      notification_templates = [''default'' \<mapsto> ''Anomaly detected''],
      alert_channels =
        [(''slack'', \<lparr>channel_severity_levels = [''high'', ''critical'']\<rparr>),
         (''email'', \<lparr>channel_severity_levels = [''low'', ''medium'', ''high'', ''critical'']\<rparr>)]\<rparr>"

definition demo_anomaly :: "string \<Rightarrow> string \<Rightarrow> anomaly" where
  "demo_anomaly metric_name sev =
     \<lparr>metric = metric_name, current_value = 95, severity = sev, confidence = 70,
      timestamp = 0, suggested_actions = []\<rparr>"

definition demo_alert :: alert where
  "demo_alert =
     \<lparr>alert_id = 0, alert_metric = ''cpu_usage'', alert_value = 95, alert_severity = ''high'',
      alert_confidence = 70, alert_timestamp = 0, description = ''Anomaly detected'', actions = []\<rparr>"

section \<open>CanaryAnalyzer (src/deployment/canary\_analyzer.py)\<close>

text \<open>
  The impact levels \<open>_determine_impact_level\<close> returns, the strings \<open>'insignificant'\<close>,
  \<open>'low'\<close>, \<open>'medium'\<close> and \<open>'high'\<close>.
\<close>

datatype impact_level = Insignificant | Low | Medium | High

text \<open>The dict built for each compared metric.\<close>

record metric_analysis =
  difference_percentage :: real
  significant :: bool
  impact :: impact_level

text \<open>
  The configuration keys the analyzer reads. \<open>thresholds\<close> and \<open>promotion_threshold\<close> are
  read with \<open>self.config[...]\<close>, a KeyError when absent; \<open>confidence_weights\<close> and
  \<open>impact_thresholds\<close> are read with \<open>self.config.get(..., default)\<close>.
\<close>

record canary_config =
  thresholds :: "(string \<rightharpoonup> real) option"
  promotion_threshold :: "real option"
  confidence_weights :: "(string \<rightharpoonup> real) option"
  impact_thresholds :: "(string \<rightharpoonup> real) option"

text \<open>
  A metric set as \<open>_collect_baseline_metrics\<close> builds it: each of the three categories is
  there with all its keys, or is missing when its collection raised.
\<close>

record performance_metrics =
  latency :: real
  throughput :: real
  success_rate :: real

record resource_metrics =
  cpu_usage :: real
  memory_usage :: real
  network_io :: real

record error_metrics =
  error_rate :: real
  error_types :: "string list"

record metric_set =
  performance :: "performance_metrics option"
  resources :: "resource_metrics option"
  errors :: "error_metrics option"

text \<open>The results of the three comparisons and the dict \<open>analysis_results\<close>.\<close>

record performance_result =
  pa_latency :: metric_analysis
  pa_throughput :: metric_analysis
  pa_success_rate :: metric_analysis

record error_types_result =
  new_errors :: "string list"
  resolved_errors :: "string list"
  error_types_impact :: impact_level

record error_result =
  ea_error_rate :: metric_analysis
  ea_error_types :: error_types_result

record resource_result =
  ra_cpu :: metric_analysis
  ra_memory :: metric_analysis

text \<open>
  Modelled from the spec: \<open>_analyze_user_impact\<close> is called by \<open>analyze_canary\<close> but is not
  in the sources. Its result is the user-impact category of the comparison, which the
  specification gives the same per-metric entries as the others: a list of them.
\<close>

record analysis_results =
  performance_analysis :: performance_result
  error_analysis :: error_result
  resource_analysis :: resource_result
  user_impact_analysis :: "metric_analysis list"

record decision_metrics =
  performance_score :: real
  error_score :: real
  resource_score :: real
  user_impact_score :: real

text \<open>The dict \<open>_make_promotion_decision\<close> returns (\<open>decision_confidence\<close> is its \<open>confidence\<close>).\<close>

record decision =
  promote :: bool
  overall_score :: real
  metrics_scores :: decision_metrics
  decision_confidence :: real
  reasons :: "string list"

text \<open>\<open>d[k]\<close> where the dict is a record with optional entries.\<close>

definition required :: "string \<Rightarrow> 'a option \<Rightarrow> error + 'a" where
  "required k v = (case v of None \<Rightarrow> Inl (KeyError k) | Some x \<Rightarrow> Inr x)"

text \<open>
  Modelled from the spec: \<open>_calculate_metric_difference\<close> is called by the three analyses
  but is not in the sources. The specification: \<open>differencePercent = (canary - baseline) /
  baseline * 100\<close>, defined as 0 when baseline is 0.
\<close>

definition calculate_metric_difference :: "real \<Rightarrow> real \<Rightarrow> real" where
  "calculate_metric_difference baseline canary =
     (if baseline = 0 then 0 else (canary - baseline) / baseline * 100)"

definition default_impact_thresholds :: "string \<rightharpoonup> real" where
  "default_impact_thresholds = [''high'' \<mapsto> 20, ''medium'' \<mapsto> 10, ''low'' \<mapsto> 5]"

definition determine_impact_level :: "canary_config \<Rightarrow> real \<Rightarrow> error + impact_level" where
  "determine_impact_level cfg difference =
     (let ts = (case impact_thresholds cfg of None \<Rightarrow> default_impact_thresholds | Some t \<Rightarrow> t);
          abs_diff = \<bar>difference\<bar>
      in err_bind (lookup ts ''high'') (\<lambda>high.
           if abs_diff > high then Inr High
           else err_bind (lookup ts ''medium'') (\<lambda>medium.
             if abs_diff > medium then Inr Medium
             else err_bind (lookup ts ''low'') (\<lambda>low.
               if abs_diff > low then Inr Low else Inr Insignificant))))"

text \<open>
  The block the analyses repeat for each metric: the difference, then the dict with
  \<open>abs(diff) > self.config['thresholds'][key]\<close> and the impact level, in that order.
\<close>

definition compare_metric :: "canary_config \<Rightarrow> string \<Rightarrow> real \<Rightarrow> real \<Rightarrow> error + metric_analysis" where
  "compare_metric cfg key baseline canary =
     (let diff = calculate_metric_difference baseline canary in
      err_bind (required ''thresholds'' (thresholds cfg)) (\<lambda>ts.
      err_bind (lookup ts key) (\<lambda>threshold.
      err_bind (determine_impact_level cfg diff) (\<lambda>level.
        Inr \<lparr>difference_percentage = diff, significant = (\<bar>diff\<bar> > threshold), impact = level\<rparr>))))"

definition analyze_performance :: "canary_config \<Rightarrow> metric_set \<Rightarrow> metric_set \<Rightarrow> error + performance_result" where
  "analyze_performance cfg baseline_metrics canary_metrics =
     err_bind (required ''performance'' (performance baseline_metrics)) (\<lambda>b.
     err_bind (required ''performance'' (performance canary_metrics)) (\<lambda>c.
     err_bind (compare_metric cfg ''latency'' (latency b) (latency c)) (\<lambda>l.
     err_bind (compare_metric cfg ''throughput'' (throughput b) (throughput c)) (\<lambda>t.
     err_bind (compare_metric cfg ''success_rate'' (success_rate b) (success_rate c)) (\<lambda>s.
       Inr \<lparr>pa_latency = l, pa_throughput = t, pa_success_rate = s\<rparr>)))))"

text \<open>
  \<open>_analyze_error_types\<close> is not in the sources: it is a parameter of \<open>_analyze_errors\<close>.
\<close>

definition analyze_errors ::
  "canary_config \<Rightarrow> (string list \<Rightarrow> string list \<Rightarrow> error_types_result) \<Rightarrow> metric_set \<Rightarrow> metric_set
     \<Rightarrow> error + error_result"
where
  "analyze_errors cfg analyze_error_types baseline_metrics canary_metrics =
     err_bind (required ''errors'' (errors baseline_metrics)) (\<lambda>b.
     err_bind (required ''errors'' (errors canary_metrics)) (\<lambda>c.
     err_bind (compare_metric cfg ''error_rate'' (error_rate b) (error_rate c)) (\<lambda>r.
       Inr \<lparr>ea_error_rate = r,
            ea_error_types = analyze_error_types (error_types b) (error_types c)\<rparr>)))"

definition analyze_resources :: "canary_config \<Rightarrow> metric_set \<Rightarrow> metric_set \<Rightarrow> error + resource_result" where
  "analyze_resources cfg baseline_metrics canary_metrics =
     err_bind (required ''resources'' (resources baseline_metrics)) (\<lambda>b.
     err_bind (required ''resources'' (resources canary_metrics)) (\<lambda>c.
     err_bind (compare_metric cfg ''cpu'' (cpu_usage b) (cpu_usage c)) (\<lambda>cpu.
     err_bind (compare_metric cfg ''memory'' (memory_usage b) (memory_usage c)) (\<lambda>mem.
       Inr \<lparr>ra_cpu = cpu, ra_memory = mem\<rparr>))))"

text \<open>
  Modelled from the spec: \<open>_calculate_performance_score\<close>, \<open>_calculate_error_score\<close>,
  \<open>_calculate_resource_score\<close> and \<open>_calculate_user_impact_score\<close> are called by
  \<open>_make_promotion_decision\<close> but are not in the sources. The specification: a category's
  score is 1.0 minus a penalty for the worst significant impact in the category
  (insignificant 0, low 0.25, medium 0.5, high 1.0), clamped to [0,1].
\<close>

fun penalty :: "impact_level \<Rightarrow> real" where
  "penalty Insignificant = 0"
| "penalty Low = 0.25"
| "penalty Medium = 0.5"
| "penalty High = 1"

fun impact_rank :: "impact_level \<Rightarrow> nat" where
  "impact_rank Insignificant = 0"
| "impact_rank Low = 1"
| "impact_rank Medium = 2"
| "impact_rank High = 3"

definition worse :: "impact_level \<Rightarrow> impact_level \<Rightarrow> impact_level" where
  "worse a b = (if impact_rank a \<ge> impact_rank b then a else b)"

fun worst_significant_impact :: "metric_analysis list \<Rightarrow> impact_level" where
  "worst_significant_impact [] = Insignificant"
| "worst_significant_impact (m # ms) =
     (if significant m then worse (impact m) (worst_significant_impact ms)
      else worst_significant_impact ms)"

definition category_score :: "metric_analysis list \<Rightarrow> real" where
  "category_score entries = min 1 (max 0 (1 - penalty (worst_significant_impact entries)))"

definition calculate_performance_score :: "performance_result \<Rightarrow> real" where
  "calculate_performance_score pa = category_score [pa_latency pa, pa_throughput pa, pa_success_rate pa]"

definition calculate_error_score :: "error_result \<Rightarrow> real" where
  "calculate_error_score ea = category_score [ea_error_rate ea]"

definition calculate_resource_score :: "resource_result \<Rightarrow> real" where
  "calculate_resource_score ra = category_score [ra_cpu ra, ra_memory ra]"

definition calculate_user_impact_score :: "metric_analysis list \<Rightarrow> real" where
  "calculate_user_impact_score ua = category_score ua"

text \<open>
  \<open>_calculate_decision_confidence\<close> (lines 336-350): the weights are the configured ones or
  the defaults; the sum runs over the four scores in the order of \<open>decision_metrics\<close>, a
  missing weight being a KeyError.
\<close>

definition default_confidence_weights :: "string \<rightharpoonup> real" where
  "default_confidence_weights =
     [''performance_score'' \<mapsto> 0.4, ''error_score'' \<mapsto> 0.3,
      ''resource_score'' \<mapsto> 0.2, ''user_impact_score'' \<mapsto> 0.1]"

definition configured_weights :: "canary_config \<Rightarrow> string \<rightharpoonup> real" where
  "configured_weights cfg =
     (case confidence_weights cfg of None \<Rightarrow> default_confidence_weights | Some w \<Rightarrow> w)"

definition calculate_decision_confidence :: "canary_config \<Rightarrow> decision_metrics \<Rightarrow> error + real" where
  "calculate_decision_confidence cfg dm =
     (let weights = configured_weights cfg in
      err_bind (lookup weights ''performance_score'') (\<lambda>wp.
      err_bind (lookup weights ''error_score'') (\<lambda>we.
      err_bind (lookup weights ''resource_score'') (\<lambda>wr.
      err_bind (lookup weights ''user_impact_score'') (\<lambda>wu.
        let confidence = 0 + performance_score dm * wp + error_score dm * we
                           + resource_score dm * wr + user_impact_score dm * wu
        in Inr (min 1 (max 0 confidence)))))))"

text \<open>
  Modelled from the spec: \<open>_calculate_overall_score\<close> is called by
  \<open>_make_promotion_decision\<close> but is not in the sources. The specification: the overall
  score is the weighted sum of the category scores using the configured weights (default
  performance 0.4, error 0.3, resource 0.2, user impact 0.1), clamped to [0,1]; the
  confidence equals the same weighted computation.
\<close>

definition calculate_overall_score :: "canary_config \<Rightarrow> decision_metrics \<Rightarrow> error + real" where
  "calculate_overall_score cfg dm =
     (let weights = configured_weights cfg in
      err_bind (lookup weights ''performance_score'') (\<lambda>wp.
      err_bind (lookup weights ''error_score'') (\<lambda>we.
      err_bind (lookup weights ''resource_score'') (\<lambda>wr.
      err_bind (lookup weights ''user_impact_score'') (\<lambda>wu.
        Inr (min 1 (max 0 (performance_score dm * wp + error_score dm * we
                            + resource_score dm * wr + user_impact_score dm * wu))))))))"

text \<open>
  \<open>_make_promotion_decision\<close> (lines 257-291). \<open>_generate_decision_reasons\<close> is not in the
  sources: it is a parameter.
\<close>

definition make_promotion_decision ::
  "canary_config \<Rightarrow> (bool \<Rightarrow> decision_metrics \<Rightarrow> analysis_results \<Rightarrow> string list)
     \<Rightarrow> analysis_results \<Rightarrow> error + decision"
where
  "make_promotion_decision cfg generate_decision_reasons analysis =
     (let dm = \<lparr>performance_score = calculate_performance_score (performance_analysis analysis),
                error_score = calculate_error_score (error_analysis analysis),
                resource_score = calculate_resource_score (resource_analysis analysis),
                user_impact_score = calculate_user_impact_score (user_impact_analysis analysis)\<rparr>
      in err_bind (calculate_overall_score cfg dm) (\<lambda>overall.
         err_bind (required ''promotion_threshold'' (promotion_threshold cfg)) (\<lambda>threshold.
           let should_promote = (overall \<ge> threshold) in
           err_bind (calculate_decision_confidence cfg dm) (\<lambda>conf.
             Inr \<lparr>promote = should_promote, overall_score = overall, metrics_scores = dm,
                  decision_confidence = conf,
                  reasons = generate_decision_reasons should_promote dm analysis\<rparr>))))"

text \<open>
  The four categories of a decision, with the compared metrics, the weight key and the
  score of each.
\<close>

datatype category = Performance | Error | Resource | UserImpact

fun category_entries :: "category \<Rightarrow> analysis_results \<Rightarrow> metric_analysis list" where
  "category_entries Performance ar =
     [pa_latency (performance_analysis ar), pa_throughput (performance_analysis ar),
      pa_success_rate (performance_analysis ar)]"
| "category_entries Error ar = [ea_error_rate (error_analysis ar)]"
| "category_entries Resource ar = [ra_cpu (resource_analysis ar), ra_memory (resource_analysis ar)]"
| "category_entries UserImpact ar = user_impact_analysis ar"

fun weight_key :: "category \<Rightarrow> string" where
  "weight_key Performance = ''performance_score''"
| "weight_key Error = ''error_score''"
| "weight_key Resource = ''resource_score''"
| "weight_key UserImpact = ''user_impact_score''"

fun score_of :: "category \<Rightarrow> decision_metrics \<Rightarrow> real" where
  "score_of Performance dm = performance_score dm"
| "score_of Error dm = error_score dm"
| "score_of Resource dm = resource_score dm"
| "score_of UserImpact dm = user_impact_score dm"

text \<open>
  The scenarios of the specification: latency 100 against 105 with a threshold of 10,
  error rate 1 against 8 with a threshold of 5, promotion threshold 0.8, default weights.
  The baseline's throughput is 0.
\<close>

definition demo_canary_config :: canary_config where
  "demo_canary_config =
     \<lparr>thresholds = Some [''latency'' \<mapsto> 10, ''throughput'' \<mapsto> 10, ''success_rate'' \<mapsto> 5,
                         ''error_rate'' \<mapsto> 5, ''cpu'' \<mapsto> 20, ''memory'' \<mapsto> 20],
      promotion_threshold = Some 0.8, confidence_weights = None, impact_thresholds = None\<rparr>"

definition demo_baseline :: metric_set where
  "demo_baseline =
     \<lparr>performance = Some \<lparr>latency = 100, throughput = 0, success_rate = 99\<rparr>,
      resources = Some \<lparr>cpu_usage = 40, memory_usage = 50, network_io = 10\<rparr>,
      errors = Some \<lparr>error_rate = 1, error_types = []\<rparr>\<rparr>"

definition demo_canary :: metric_set where
  "demo_canary =
     \<lparr>performance = Some \<lparr>latency = 105, throughput = 30, success_rate = 99\<rparr>,
      resources = Some \<lparr>cpu_usage = 40, memory_usage = 50, network_io = 10\<rparr>,
      errors = Some \<lparr>error_rate = 8, error_types = []\<rparr>\<rparr>"

definition demo_error_types :: "string list \<Rightarrow> string list \<Rightarrow> error_types_result" where
  "demo_error_types baseline canary =
     \<lparr>new_errors = filter (\<lambda>e. e \<notin> set baseline) canary,
      resolved_errors = filter (\<lambda>e. e \<notin> set canary) baseline,
      error_types_impact = Insignificant\<rparr>"

definition demo_reasons :: "bool \<Rightarrow> decision_metrics \<Rightarrow> analysis_results \<Rightarrow> string list" where
  "demo_reasons should_promote dm ar = []"

text \<open>
  Analysis results: nothing significant; a significant error-rate difference of high
  impact; a significant latency difference of high impact.
\<close>

definition unchanged :: metric_analysis where
  "unchanged = \<lparr>difference_percentage = 0, significant = False, impact = Insignificant\<rparr>"

definition quiet_analysis :: analysis_results where
  "quiet_analysis =
     \<lparr>performance_analysis =
        \<lparr>pa_latency = unchanged, pa_throughput = unchanged, pa_success_rate = unchanged\<rparr>,
      error_analysis =
        \<lparr>ea_error_rate = unchanged,
         ea_error_types = \<lparr>new_errors = [], resolved_errors = [], error_types_impact = Insignificant\<rparr>\<rparr>,
      resource_analysis = \<lparr>ra_cpu = unchanged, ra_memory = unchanged\<rparr>,
      user_impact_analysis = []\<rparr>"

definition error_spike_analysis :: analysis_results where
  "error_spike_analysis =
     quiet_analysis\<lparr>error_analysis :=
        \<lparr>ea_error_rate = \<lparr>difference_percentage = 700, significant = True, impact = High\<rparr>,
         ea_error_types = \<lparr>new_errors = [], resolved_errors = [], error_types_impact = Insignificant\<rparr>\<rparr>\<rparr>"

definition slow_analysis :: analysis_results where
  "slow_analysis =
     quiet_analysis\<lparr>performance_analysis :=
        \<lparr>pa_latency = \<lparr>difference_percentage = 50, significant = True, impact = High\<rparr>,
         pa_throughput = unchanged, pa_success_rate = unchanged\<rparr>\<rparr>"

text \<open>A configuration whose performance weight is negative.\<close>

definition skewed_config :: canary_config where
  "skewed_config =
     demo_canary_config\<lparr>confidence_weights :=
        Some [''performance_score'' \<mapsto> - 0.5, ''error_score'' \<mapsto> 0.5,
              ''resource_score'' \<mapsto> 0.25, ''user_impact_score'' \<mapsto> 0.25]\<rparr>"

section \<open>Properties of the rollback sequencer\<close>

lemma logged_apply:
  "logged exec s (w, lg) = (case exec s w of (out, w') \<Rightarrow> (out, (w', lg @ [(s, out)])))"
  by (simp add: logged_def)

text \<open>
  The shape of a run: the loop extends the results by one entry per call, the calls are
  a prefix of the plan in order, every call but the last succeeded, and the loop stops
  short of the plan's end only on a failed call.
\<close>

lemma rollback_loop_shape:
  "rollback_loop (logged exec) steps acc (w, lg) = (rs, (w', lg')) \<Longrightarrow>
   \<exists>new. lg' = lg @ new \<and> rs = acc @ map result_of new
     \<and> map fst new = take (length new) steps \<and> length new \<le> length steps
     \<and> (\<forall>k < length new. failed (snd (new ! k)) \<longrightarrow> Suc k = length new)
     \<and> (\<forall>k < length new. success (result_of (new ! k)) = (\<not> failed (snd (new ! k))))"
proof (induction steps arbitrary: acc w lg)
  case Nil
  then show ?case by simp
next
  case (Cons s rest)
  obtain out w1 where ex: "exec s w = (out, w1)" by (cases "exec s w")
  show ?case
  proof (cases out)
    case (Returned r)
    show ?thesis
    proof (cases "success r")
      case True
      with Cons.prems ex Returned
      have "rollback_loop (logged exec) rest (acc @ [r]) (w1, lg @ [(s, out)]) = (rs, (w', lg'))"
        by (simp add: logged_apply)
      then obtain new where n: "lg' = (lg @ [(s, out)]) @ new" "rs = (acc @ [r]) @ map result_of new"
        "map fst new = take (length new) rest" "length new \<le> length rest"
        "\<forall>k < length new. failed (snd (new ! k)) \<longrightarrow> Suc k = length new"
        "\<forall>k < length new. success (result_of (new ! k)) = (\<not> failed (snd (new ! k)))"
        using Cons.IH by blast
      have f: "\<forall>k < length ((s, out) # new). failed (snd (((s, out) # new) ! k))
                 \<longrightarrow> Suc k = length ((s, out) # new)"
        using n(5) True Returned by (auto simp: nth_Cons split: nat.splits)
      have g: "\<forall>k < length ((s, out) # new).
                 success (result_of (((s, out) # new) ! k)) = (\<not> failed (snd (((s, out) # new) ! k)))"
        using n(6) True Returned by (auto simp: nth_Cons split: nat.splits)
      show ?thesis
        apply (rule exI[of _ "(s, out) # new"])
        using n(1-4) f g Returned by simp
    next
      case False
      with Cons.prems ex Returned have "rs = acc @ [r]" "lg' = lg @ [(s, out)]"
        by (simp_all add: logged_apply)
      then show ?thesis using False Returned by (intro exI[of _ "[(s, out)]"]) simp
    qed
  next
    case (Raised e)
    with Cons.prems ex
    have "rs = acc @ [\<lparr>step = s, success = False, error_msg = Some e\<rparr>]" "lg' = lg @ [(s, out)]"
      by (simp_all add: logged_apply)
    then show ?thesis using Raised by (intro exI[of _ "[(s, out)]"]) simp
  qed
qed

lemma list_all_success_iff:
  "list_all success (map result_of new) = (\<forall>k < length new. success (result_of (new ! k)))"
  by (simp add: list_all_length)

text \<open>
  C2. When \<open>_execute_rollback\<close> runs a plan, the steps it calls are a prefix of the plan
  in the plan's order, \<open>steps_executed\<close> is the number of calls, and if the call for
  step \<open>k\<close> (counted from 0) fails, by returning \<open>success = False\<close> or by raising, then
  it is the last call: \<open>steps_executed = k + 1\<close>, no later step is called, and the
  returned \<open>success\<close> is false.
\<close>

theorem C2_failed_step_halts_rollback:
  assumes run: "execute_rollback (logged exec) plan (w, []) = (res, (w', lg))"
  shows "steps_executed res = length lg
       \<and> map fst lg = take (steps_executed res) (rollback_steps plan)
       \<and> results res = map result_of lg
       \<and> (\<forall>k < length lg. failed (snd (lg ! k)) \<longrightarrow>
             steps_executed res = Suc k \<and> \<not> rb_success res
             \<and> map fst lg = take (Suc k) (rollback_steps plan))"
proof -
  obtain rs where loop: "rollback_loop (logged exec) (rollback_steps plan) [] (w, []) = (rs, (w', lg))"
    and res: "res = \<lparr>steps_executed = length rs, rb_success = list_all success rs, results = rs\<rparr>"
    using run by (auto simp: execute_rollback_def split: prod.splits)
  from rollback_loop_shape[OF loop]
  have rs: "rs = map result_of lg"
    and pre: "map fst lg = take (length lg) (rollback_steps plan)"
    and halt: "\<forall>k < length lg. failed (snd (lg ! k)) \<longrightarrow> Suc k = length lg"
    and succ: "\<forall>k < length lg. success (result_of (lg ! k)) = (\<not> failed (snd (lg ! k)))"
    by auto
  have n: "steps_executed res = length lg" using res rs by simp
  have fail: "\<not> rb_success res" if "k < length lg" "failed (snd (lg ! k))" for k
  proof -
    from that succ have "\<not> success (result_of (lg ! k))" by simp
    with that(1) have "\<not> (\<forall>j < length lg. success (result_of (lg ! j)))" by blast
    then show ?thesis using res rs by (simp add: list_all_success_iff)
  qed
  show ?thesis using n pre rs res halt fail by auto
qed

text \<open>
  The scenario of the specification: step 2 of 3 fails. Two steps are executed, the
  rollback is reported failed, and the third step is never attempted.
\<close>

theorem C2_step_two_of_three_fails:
  "steps_executed (fst (execute_rollback (logged demo_exec) demo_plan (0, []))) = 2
   \<and> \<not> rb_success (fst (execute_rollback (logged demo_exec) demo_plan (0, [])))
   \<and> map fst (snd (snd (execute_rollback (logged demo_exec) demo_plan (0, []))))
       = [''restore-traffic'', ''restore-revision'']"
proof -
  let ?r1 = "\<lparr>step = ''restore-traffic'', success = True, error_msg = None\<rparr>"
  let ?r2 = "\<lparr>step = ''restore-revision'', success = False, error_msg = None\<rparr>"
  let ?lg = "[(''restore-traffic'', Returned ?r1), (''restore-revision'', Returned ?r2)]"
  have run: "execute_rollback (logged demo_exec) demo_plan (0, [])
      = (\<lparr>steps_executed = 2, rb_success = False, results = [?r1, ?r2]\<rparr>, (2, ?lg))"
    by (simp add: execute_rollback_def demo_plan_def logged_apply demo_exec_def)
  have k: "(1::nat) < length ?lg" "failed (snd (?lg ! 1))" by simp_all
  from C2_failed_step_halts_rollback[OF run] k show ?thesis
    by (simp add: run)
qed

lemma verified_step_apply:
  "execute_rollback_step (log_apply ap) (log_verify vf) s (w, lg) =
     (case ap s w of
        (Raised e, w1) \<Rightarrow> (Raised e, (w1, lg @ [(ApplyOp, s, False)]))
      | (Returned r, w1) \<Rightarrow>
          (case vf s w1 of (ok, w2) \<Rightarrow>
             (Returned (r\<lparr>success := success r \<and> ok\<rparr>),
              (w2, lg @ [(ApplyOp, s, success r), (VerifyOp, s, ok)]))))"
  by (simp add: execute_rollback_step_def log_apply_def log_verify_def split: prod.splits step_outcome.splits)

lemma verified_loop_shape:
  "rollback_loop (execute_rollback_step (log_apply ap) (log_verify vf)) steps acc (w, lg) = (rs, (w', lg')) \<Longrightarrow>
   \<exists>new rnew. lg' = lg @ new \<and> rs = acc @ rnew
     \<and> map call_kind new = take (length new) (expected_calls steps)
     \<and> length rnew = (length new + 1) div 2
     \<and> (\<forall>i < length new. \<not> call_ok (new ! i) \<longrightarrow>
           length rnew = Suc (i div 2) \<and> \<not> list_all success rnew)"
proof (induction steps arbitrary: acc w lg)
  case Nil
  then show ?case by (simp add: expected_calls_def)
next
  case (Cons s rest)
  obtain out w1 where ex: "ap s w = (out, w1)" by (cases "ap s w")
  show ?case
  proof (cases out)
    case (Raised e)
    with Cons.prems ex
    have "rs = acc @ [\<lparr>step = s, success = False, error_msg = Some e\<rparr>]" "lg' = lg @ [(ApplyOp, s, False)]"
      by (simp_all add: verified_step_apply)
    then show ?thesis
      by (intro exI[of _ "[(ApplyOp, s, False)]"] exI[of _ "[\<lparr>step = s, success = False, error_msg = Some e\<rparr>]"])
         (simp add: expected_calls_def call_kind_def call_ok_def)
  next
    case (Returned r)
    obtain ok w2 where vf: "vf s w1 = (ok, w2)" by (cases "vf s w1")
    let ?r = "r\<lparr>success := success r \<and> ok\<rparr>"
    let ?cs = "[(ApplyOp, s, success r), (VerifyOp, s, ok)]"
    show ?thesis
    proof (cases "success r \<and> ok")
      case False
      with Cons.prems ex Returned vf have "rs = acc @ [?r]" "lg' = lg @ ?cs"
        by (auto simp add: verified_step_apply)
      then show ?thesis using False
        by (intro exI[of _ ?cs] exI[of _ "[?r]"])
           (auto simp add: expected_calls_def call_kind_def call_ok_def less_Suc_eq)
    next
      case True
      with Cons.prems ex Returned vf
      have "rollback_loop (execute_rollback_step (log_apply ap) (log_verify vf)) rest (acc @ [?r]) (w2, lg @ ?cs) = (rs, (w', lg'))"
        by (simp add: verified_step_apply)
      then obtain new rnew where n: "lg' = (lg @ ?cs) @ new" "rs = (acc @ [?r]) @ rnew"
        "map call_kind new = take (length new) (expected_calls rest)"
        "length rnew = (length new + 1) div 2"
        "\<forall>i < length new. \<not> call_ok (new ! i) \<longrightarrow> length rnew = Suc (i div 2) \<and> \<not> list_all success rnew"
        using Cons.IH by blast
      have k: "map call_kind (?cs @ new) = take (length (?cs @ new)) (expected_calls (s # rest))"
        using n(3) by (simp add: expected_calls_def call_kind_def)
      have h: "\<forall>i < length (?cs @ new). \<not> call_ok ((?cs @ new) ! i) \<longrightarrow>
           length (?r # rnew) = Suc (i div 2) \<and> \<not> list_all success (?r # rnew)"
      proof (intro allI impI)
        fix i assume i: "i < length (?cs @ new)" "\<not> call_ok ((?cs @ new) ! i)"
        from i True have "2 \<le> i" by (cases i; cases "i - 1") (auto simp: call_ok_def)
        then obtain j where j: "i = Suc (Suc j)" by (metis Suc_le_D numeral_2_eq_2 Suc_le_mono)
        with i n(5) have "length rnew = Suc (j div 2) \<and> \<not> list_all success rnew" by simp
        then show "length (?r # rnew) = Suc (i div 2) \<and> \<not> list_all success (?r # rnew)"
          using j by simp
      qed
      show ?thesis
      proof (intro exI[of _ "?cs @ new"] exI[of _ "?r # rnew"] conjI)
        show "lg' = lg @ ?cs @ new" using n(1) by simp
        show "rs = acc @ ?r # rnew" using n(2) by simp
        show "map call_kind (?cs @ new) = take (length (?cs @ new)) (expected_calls (s # rest))"
          by (rule k)
        show "length (?r # rnew) = (length (?cs @ new) + 1) div 2" using n(4) by simp
        show "\<forall>i < length (?cs @ new). \<not> call_ok ((?cs @ new) ! i) \<longrightarrow>
           length (?r # rnew) = Suc (i div 2) \<and> \<not> list_all success (?r # rnew)"
          by (rule h)
      qed
    qed
  qed
qed

text \<open>
  C9. With the step executor of the specification, the calls \<open>_execute_rollback\<close> makes
  on the cluster manager are a prefix of "apply step 1, verify step 1, apply step 2,
  verify step 2, ...": a step is applied only after the step before it was verified.
  A call that reports failure, a verification as much as an application, ends the
  sequence at its step: \<open>steps_executed\<close> is that step's number, no call is made for a
  later step, and the rollback's \<open>success\<close> is false.
\<close>

theorem C9_steps_verified_before_next:
  assumes run: "execute_rollback (execute_rollback_step (log_apply ap) (log_verify vf)) plan (w, [])
                  = (res, (w', lg))"
  shows "map call_kind lg = take (length lg) (expected_calls (rollback_steps plan))
       \<and> steps_executed res = (length lg + 1) div 2
       \<and> (\<forall>i < length lg. \<not> call_ok (lg ! i) \<longrightarrow>
             steps_executed res = Suc (i div 2) \<and> length lg \<le> 2 * Suc (i div 2)
             \<and> \<not> rb_success res)"
proof -
  obtain rs where loop: "rollback_loop (execute_rollback_step (log_apply ap) (log_verify vf))
        (rollback_steps plan) [] (w, []) = (rs, (w', lg))"
    and res: "res = \<lparr>steps_executed = length rs, rb_success = list_all success rs, results = rs\<rparr>"
    using run by (auto simp: execute_rollback_def split: prod.splits)
  from verified_loop_shape[OF loop]
  have kinds: "map call_kind lg = take (length lg) (expected_calls (rollback_steps plan))"
    and len: "length rs = (length lg + 1) div 2"
    and halt: "\<forall>i < length lg. \<not> call_ok (lg ! i) \<longrightarrow>
                 length rs = Suc (i div 2) \<and> \<not> list_all success rs"
    by auto
  have bound: "length lg \<le> 2 * Suc (i div 2)" if "length rs = Suc (i div 2)" for i
    using that len by arith
  show ?thesis using kinds len halt bound res by auto
qed

text \<open>
  The scenario of the specification: step 2 of 3 fails verification. Both of its calls
  are made, none for step 3, and the rollback is reported failed after two steps.
\<close>

theorem C9_step_two_fails_verification:
  "map call_kind (snd (snd (execute_rollback
       (execute_rollback_step (log_apply demo_apply) (log_verify demo_verify)) demo_plan (0, []))))
     = [(ApplyOp, ''restore-traffic''), (VerifyOp, ''restore-traffic''),
        (ApplyOp, ''restore-revision''), (VerifyOp, ''restore-revision'')]
   \<and> steps_executed (fst (execute_rollback
       (execute_rollback_step (log_apply demo_apply) (log_verify demo_verify)) demo_plan (0, []))) = 2
   \<and> \<not> rb_success (fst (execute_rollback
       (execute_rollback_step (log_apply demo_apply) (log_verify demo_verify)) demo_plan (0, [])))"
proof -
  let ?r1 = "\<lparr>step = ''restore-traffic'', success = True, error_msg = None\<rparr>"
  let ?r2 = "\<lparr>step = ''restore-revision'', success = False, error_msg = None\<rparr>"
  let ?lg = "[(ApplyOp, ''restore-traffic'', True), (VerifyOp, ''restore-traffic'', True),
              (ApplyOp, ''restore-revision'', True), (VerifyOp, ''restore-revision'', False)]"
  have run: "execute_rollback (execute_rollback_step (log_apply demo_apply) (log_verify demo_verify))
         demo_plan (0, [])
      = (\<lparr>steps_executed = 2, rb_success = False, results = [?r1, ?r2]\<rparr>, (2, ?lg))"
    by (simp add: execute_rollback_def demo_plan_def verified_step_apply demo_apply_def demo_verify_def)
  have k: "(3::nat) < length ?lg" "\<not> call_ok (?lg ! 3)" by (simp_all add: call_ok_def)
  from C9_steps_verified_before_next[OF run] k
  have a: "steps_executed \<lparr>steps_executed = 2, rb_success = False, results = [?r1, ?r2]\<rparr> = Suc (3 div 2)
           \<and> \<not> rb_success \<lparr>steps_executed = 2, rb_success = False, results = [?r1, ?r2]\<rparr>"
    by blast
  have b: "map call_kind ?lg = [(ApplyOp, ''restore-traffic''), (VerifyOp, ''restore-traffic''),
        (ApplyOp, ''restore-revision''), (VerifyOp, ''restore-revision'')]"
    by (simp add: call_kind_def)
  show ?thesis unfolding run using a b by simp
qed

section \<open>Properties of the anomaly detector\<close>

lemma update_history_other:
  "m' \<noteq> m \<Longrightarrow> update_history cfg now m v h m' = h m'"
  by (simp add: update_history_def Let_def)

lemma update_history_local:
  "h m = g m \<Longrightarrow> update_history cfg now m v h m = update_history cfg now m v g m"
  by (simp add: update_history_def window_def Let_def)

lemma check_local:
  "h m = g m \<Longrightarrow> check_metric_anomaly cfg sc now h m v = check_metric_anomaly cfg sc now g m v"
  by (simp add: check_metric_anomaly_def lookup_def)

lemma observe_history:
  "snd (observe_metric cfg sc now m v h) = update_history cfg now m v h"
  by (simp add: observe_metric_def Let_def)

lemma observe_local:
  "h m = g m \<Longrightarrow> fst (observe_metric cfg sc now m v h) = fst (observe_metric cfg sc now m v g)"
  using update_history_local[of h m g cfg now v]
        check_local[of "update_history cfg now m v h" m "update_history cfg now m v g" cfg sc now v]
  by (simp add: observe_metric_def Let_def window_def)

lemma observe_metric_name:
  "fst (observe_metric cfg sc now m v h) = Inr (Some a) \<Longrightarrow> metric a = m"
  by (auto simp: observe_metric_def Let_def check_metric_anomaly_def err_bind_def
           split: if_splits sum.splits)

lemma detect_loop_distinct:
  "distinct (map fst metrics) \<Longrightarrow> \<forall>m \<in> fst ` set metrics. h m = h0 m \<Longrightarrow>
   detect_loop cfg sc now metrics h acc = (r, h') \<Longrightarrow>
   (\<forall>anoms. r = Inr anoms \<longrightarrow>
      anoms = acc @ concat (map (\<lambda>(m, v). found (fst (observe_metric cfg sc now m v h0))) metrics)
      \<and> (\<forall>m v. (m, v) \<in> set metrics \<longrightarrow> h' m = update_history cfg now m v h0 m)
      \<and> (\<forall>m. m \<notin> fst ` set metrics \<longrightarrow> h' m = h m))
   \<and> (\<forall>e. r = Inl e \<longrightarrow> (\<exists>m v. (m, v) \<in> set metrics \<and> fst (observe_metric cfg sc now m v h0) = Inl e))"
proof (induction metrics arbitrary: h acc)
  case Nil
  then show ?case by auto
next
  case (Cons mv rest)
  obtain m v where mv: "mv = (m, v)" by (cases mv)
  obtain out h1 where ob: "observe_metric cfg sc now m v h = (out, h1)"
    by (cases "observe_metric cfg sc now m v h")
  have hm: "h m = h0 m" using Cons.prems(2) mv by simp
  have out0: "fst (observe_metric cfg sc now m v h0) = out"
    using observe_local[of h m h0 cfg sc now v] hm ob by simp
  have h1: "h1 = update_history cfg now m v h" using observe_history[of cfg sc now m v h] ob by simp
  have h1m: "h1 m = update_history cfg now m v h0 m" using h1 update_history_local[of h m h0 cfg now v] hm by simp
  have notin: "m \<notin> fst ` set rest" using Cons.prems(1) mv by auto
  have h1rest: "\<forall>m' \<in> fst ` set rest. h1 m' = h0 m'"
  proof
    fix m' assume m': "m' \<in> fst ` set rest"
    with notin have "m' \<noteq> m" by blast
    then have "h1 m' = h m'" using h1 by (simp add: update_history_other)
    moreover have "h m' = h0 m'" using Cons.prems(2) m' by auto
    ultimately show "h1 m' = h0 m'" by simp
  qed
  have dr: "distinct (map fst rest)" using Cons.prems(1) by simp
  show ?case
  proof (cases out)
    case (Inl e)
    with Cons.prems(3) mv ob have "r = Inl e" by simp
    then show ?thesis using out0 Inl mv by auto
  next
    case (Inr oa)
    define acc' where "acc' = acc @ found out"
    have run: "detect_loop cfg sc now rest h1 acc' = (r, h')"
      using Cons.prems(3) mv ob Inr by (cases oa) (auto simp: acc'_def found_def)
    note IH = Cons.IH[OF dr h1rest run]
    have a: "\<forall>anoms. r = Inr anoms \<longrightarrow>
      anoms = acc @ concat (map (\<lambda>(m, v). found (fst (observe_metric cfg sc now m v h0))) (mv # rest))"
      using IH out0 mv by (simp add: acc'_def)
    have b: "\<forall>anoms. r = Inr anoms \<longrightarrow>
       (\<forall>m' v'. (m', v') \<in> set (mv # rest) \<longrightarrow> h' m' = update_history cfg now m' v' h0 m')"
    proof (intro allI impI)
      fix anoms m' v' assume r: "r = Inr anoms" and mem: "(m', v') \<in> set (mv # rest)"
      show "h' m' = update_history cfg now m' v' h0 m'"
      proof (cases "(m', v') \<in> set rest")
        case True
        then show ?thesis using IH r by blast
      next
        case False
        with mem mv have e: "m' = m" "v' = v" by auto
        from IH r notin have "h' m = h1 m" by blast
        then show ?thesis using e h1m by simp
      qed
    qed
    have c: "\<forall>anoms. r = Inr anoms \<longrightarrow> (\<forall>m'. m' \<notin> fst ` set (mv # rest) \<longrightarrow> h' m' = h m')"
    proof (intro allI impI)
      fix anoms m' assume r: "r = Inr anoms" and nm: "m' \<notin> fst ` set (mv # rest)"
      then have "m' \<noteq> m" "m' \<notin> fst ` set rest" using mv by auto
      then show "h' m' = h m'" using IH r h1 by (simp add: update_history_other)
    qed
    have d: "\<forall>e. r = Inl e \<longrightarrow>
        (\<exists>m v. (m, v) \<in> set (mv # rest) \<and> fst (observe_metric cfg sc now m v h0) = Inl e)"
      using IH by (metis list.set_intros(2))
    show ?thesis using a b c d by blast
  qed
qed


lemma detect_anomalies_distinct:
  assumes "distinct (map fst metrics)" "detect_anomalies cfg sc now metrics h = (r, h')"
  shows "(\<forall>anoms. r = Inr anoms \<longrightarrow>
      anoms = concat (map (\<lambda>(m, v). found (fst (observe_metric cfg sc now m v h))) metrics)
      \<and> (\<forall>m v. (m, v) \<in> set metrics \<longrightarrow> h' m = update_history cfg now m v h m)
      \<and> (\<forall>m. m \<notin> fst ` set metrics \<longrightarrow> h' m = h m))
   \<and> (\<forall>e. r = Inl e \<longrightarrow> (\<exists>m v. (m, v) \<in> set metrics \<and> fst (observe_metric cfg sc now m v h) = Inl e))"
  using detect_loop_distinct[of metrics h h cfg sc now "[]" r h'] assms
  by (simp add: detect_anomalies_def)

lemma found_metric: "a \<in> set (found (fst (observe_metric cfg sc now m v h))) \<Longrightarrow> metric a = m"
  by (auto simp: found_def observe_metric_name split: sum.splits option.splits)

lemma filter_found_distinct:
  "distinct (map fst metrics) \<Longrightarrow> (m, v) \<in> set metrics \<Longrightarrow>
   filter (\<lambda>a. metric a = m)
     (concat (map (\<lambda>(m, v). found (fst (observe_metric cfg sc now m v h))) metrics))
   = found (fst (observe_metric cfg sc now m v h))"
proof (induction metrics)
  case Nil
  then show ?case by simp
next
  case (Cons mv rest)
  obtain m0 v0 where mv: "mv = (m0, v0)" by (cases mv)
  show ?case
  proof (cases "m0 = m")
    case True
    with Cons.prems mv have v: "v0 = v" and notin: "m \<notin> fst ` set rest"
      by (auto simp: rev_image_eqI)
    have none: "filter (\<lambda>a. metric a = m)
        (concat (map (\<lambda>(m, v). found (fst (observe_metric cfg sc now m v h))) rest)) = []"
    proof -
      have "metric a \<noteq> m" if "(m', v') \<in> set rest"
        "a \<in> set (found (fst (observe_metric cfg sc now m' v' h)))" for a m' v'
      proof -
        from that(2) have "metric a = m'" by (rule found_metric)
        moreover from that(1) have "m' \<in> fst ` set rest" by (simp add: rev_image_eqI)
        ultimately show ?thesis using notin by blast
      qed
      then show ?thesis by (auto simp: filter_empty_conv)
    qed
    have all: "filter (\<lambda>a. metric a = m) (found (fst (observe_metric cfg sc now m v h)))
        = found (fst (observe_metric cfg sc now m v h))"
      by (auto simp: filter_id_conv dest: found_metric)
    show ?thesis using none all mv True v by simp
  next
    case False
    with Cons.prems mv have mem: "(m, v) \<in> set rest" by auto
    have "filter (\<lambda>a. metric a = m) (found (fst (observe_metric cfg sc now m0 v0 h))) = []"
      using False by (auto simp: filter_empty_conv dest: found_metric)
    then show ?thesis using Cons.IH mem Cons.prems(1) mv by simp
  qed
qed

lemma observe_small:
  "int (length (window (update_history cfg now m v h) m)) < minimum_datapoints cfg \<Longrightarrow>
   observe_metric cfg sc now m v h = (Inr None, update_history cfg now m v h)"
  by (simp add: observe_metric_def Let_def)

lemma observe_big:
  "minimum_datapoints cfg \<le> int (length (window (update_history cfg now m v h) m)) \<Longrightarrow>
   sc (map pt_value (window (update_history cfg now m v h) m)) v = Inr s \<Longrightarrow>
   observe_metric cfg sc now m v h =
     (Inr (if - s > anomaly_threshold cfg
           then Some \<lparr>metric = m, current_value = v, severity = calculate_severity s,
                      confidence = calculate_confidence s, timestamp = now,
                      suggested_actions = suggest_actions m v (calculate_severity s)\<rparr>
           else None),
      update_history cfg now m v h)"
  by (auto simp: observe_metric_def Let_def check_metric_anomaly_def lookup_def err_bind_def
        window_def update_history_def)

lemma update_history_fresh:
  "\<forall>p \<in> set (window (update_history cfg now m v h) m).
      now - pt_timestamp p < training_period_days cfg * microseconds_per_day"
  by (auto simp: update_history_def window_def Let_def)

text \<open>
  C3. In a call of \<open>detect_anomalies\<close>, a metric whose window, after the new sample is
  appended and stale samples are evicted, holds fewer than \<open>minimum_datapoints\<close> entries
  is not scored: its loop iteration returns no anomaly and no fault whatever the value,
  the list the call returns has no anomaly for it, and a fault of the call can only
  come from scoring another metric.
\<close>

theorem C3_insufficient_data_no_anomaly:
  assumes d: "distinct (map fst metrics)" and mem: "(m, v) \<in> set metrics"
    and small: "int (length (window (update_history cfg now m v h) m)) < minimum_datapoints cfg"
    and run: "detect_anomalies cfg sc now metrics h = (r, h')"
  shows "observe_metric cfg sc now m v h = (Inr None, update_history cfg now m v h)
       \<and> (\<forall>anoms. r = Inr anoms \<longrightarrow>
             h' m = update_history cfg now m v h m \<and> (\<forall>a \<in> set anoms. metric a \<noteq> m))
       \<and> (\<forall>e. r = Inl e \<longrightarrow>
             (\<exists>m' v'. (m', v') \<in> set metrics \<and> m' \<noteq> m
                \<and> fst (observe_metric cfg sc now m' v' h) = Inl e))"
proof -
  note ob = observe_small[OF small, of sc]
  note ch = detect_anomalies_distinct[OF d run]
  have a: "\<forall>a \<in> set anoms. metric a \<noteq> m" if r: "r = Inr anoms" for anoms
  proof -
    from ch r have "anoms = concat (map (\<lambda>(m, v). found (fst (observe_metric cfg sc now m v h))) metrics)"
      by blast
    then have "filter (\<lambda>a. metric a = m) anoms = found (fst (observe_metric cfg sc now m v h))"
      using filter_found_distinct[OF d mem] by simp
    then have "filter (\<lambda>a. metric a = m) anoms = []" using ob by (simp add: found_def)
    then show ?thesis by (simp add: filter_empty_conv)
  qed
  have b: "h' m = update_history cfg now m v h m" if r: "r = Inr anoms" for anoms
    using ch r mem by blast
  have c: "\<exists>m' v'. (m', v') \<in> set metrics \<and> m' \<noteq> m \<and> fst (observe_metric cfg sc now m' v' h) = Inl e"
    if r: "r = Inl e" for e
  proof -
    from ch r obtain m' v' where mv: "(m', v') \<in> set metrics"
      "fst (observe_metric cfg sc now m' v' h) = Inl e" by blast
    have "m' \<noteq> m"
    proof
      assume "m' = m"
      with mv(1) mem d have "v' = v" by (meson distinct_map inj_onD eq_key_imp_eq_value)
      with mv(2) \<open>m' = m\<close> ob show False by simp
    qed
    with mv show ?thesis by blast
  qed
  show ?thesis using ob a b c by blast
qed


text \<open>
  A first sample of 95 for \<open>cpu_usage\<close>, with two data points required: no anomaly, although
  the scorer would rate the value anomalous.
\<close>

theorem C3_single_sample_window:
  "observe_metric demo_detector_config demo_score 0 ''cpu_usage'' 95 Map.empty
     = (Inr None, [''cpu_usage'' \<mapsto> [\<lparr>pt_timestamp = 0, pt_value = 95\<rparr>]])
   \<and> detect_anomalies demo_detector_config demo_score 0 [(''cpu_usage'', 95)] Map.empty
     = (Inr [], [''cpu_usage'' \<mapsto> [\<lparr>pt_timestamp = 0, pt_value = 95\<rparr>]])"
proof -
  let ?h1 = "[''cpu_usage'' \<mapsto> [\<lparr>pt_timestamp = 0, pt_value = 95\<rparr>]]"
  have up: "update_history demo_detector_config 0 ''cpu_usage'' 95 Map.empty = ?h1"
    by (simp add: update_history_def window_def demo_detector_config_def microseconds_per_day_def)
  have small: "int (length (window (update_history demo_detector_config 0 ''cpu_usage'' 95 Map.empty)
      ''cpu_usage'')) < minimum_datapoints demo_detector_config"
    unfolding up by (simp add: window_def demo_detector_config_def)
  have ob: "observe_metric demo_detector_config demo_score 0 ''cpu_usage'' 95 Map.empty
      = (Inr None, ?h1)"
    using observe_small[OF small, of demo_score] up by simp
  have run: "detect_anomalies demo_detector_config demo_score 0 [(''cpu_usage'', 95)] Map.empty
      = (Inr [], ?h1)"
    by (simp add: detect_anomalies_def ob)
  have d: "distinct (map fst [(''cpu_usage'', 95::real)])"
    and mem: "(''cpu_usage'', 95) \<in> set [(''cpu_usage'', 95::real)]" by simp_all
  from C3_insufficient_data_no_anomaly[OF d mem small run]
  have "observe_metric demo_detector_config demo_score 0 ''cpu_usage'' 95 Map.empty
     = (Inr None, update_history demo_detector_config 0 ''cpu_usage'' 95 Map.empty)" by blast
  then show ?thesis using run up by simp
qed

text \<open>
  C6 (amended). After a call of \<open>detect_anomalies\<close> that returns, the window of every
  metric named in the call holds only samples whose age at the call time is less than
  \<open>training_period_days\<close>, and its size is not negative. If that window is empty and
  \<open>minimum_datapoints\<close> is at least 1, the metric yields no anomaly and no fault. The
  windows of metrics not named in the call are left as they were.
\<close>

theorem C6_observed_windows_within_retention:
  assumes d: "distinct (map fst metrics)" and mem: "(m, v) \<in> set metrics"
    and run: "detect_anomalies cfg sc now metrics h = (Inr anoms, h')"
  shows "(\<forall>p \<in> set (window h' m).
            now - pt_timestamp p < training_period_days cfg * microseconds_per_day)
       \<and> 0 \<le> length (window h' m)
       \<and> (window h' m = [] \<and> 1 \<le> minimum_datapoints cfg \<longrightarrow>
            fst (observe_metric cfg sc now m v h) = Inr None \<and> (\<forall>a \<in> set anoms. metric a \<noteq> m))
       \<and> (\<forall>m'. m' \<notin> fst ` set metrics \<longrightarrow> h' m' = h m')"
proof -
  note ch = detect_anomalies_distinct[OF d run]
  from ch mem have hm: "h' m = update_history cfg now m v h m" by blast
  then have w: "window h' m = window (update_history cfg now m v h) m" by (simp add: window_def)
  have fresh: "\<forall>p \<in> set (window h' m).
            now - pt_timestamp p < training_period_days cfg * microseconds_per_day"
    unfolding w by (rule update_history_fresh)
  have empty: "fst (observe_metric cfg sc now m v h) = Inr None \<and> (\<forall>a \<in> set anoms. metric a \<noteq> m)"
    if e: "window h' m = []" and pos: "1 \<le> minimum_datapoints cfg"
  proof -
    from e pos w have small: "int (length (window (update_history cfg now m v h) m)) < minimum_datapoints cfg"
      by simp
    note ob = observe_small[OF small, of sc]
    from ch have "anoms = concat (map (\<lambda>(m, v). found (fst (observe_metric cfg sc now m v h))) metrics)"
      by blast
    then have "filter (\<lambda>a. metric a = m) anoms = found (fst (observe_metric cfg sc now m v h))"
      using filter_found_distinct[OF d mem] by simp
    then have "filter (\<lambda>a. metric a = m) anoms = []" using ob by (simp add: found_def)
    then show ?thesis using ob by (simp add: filter_empty_conv)
  qed
  have other: "\<forall>m'. m' \<notin> fst ` set metrics \<longrightarrow> h' m' = h m'" using ch by blast
  show ?thesis using fresh empty other by blast
qed

text \<open>
  C6 as stated fails. With one day of retention, \<open>cpu_usage\<close> is observed at time 0
  and \<open>memory_usage\<close> two days later: after the second call the window of \<open>cpu_usage\<close>
  still holds the sample of time 0. And with \<open>training_period_days = 0\<close> and
  \<open>minimum_datapoints = 0\<close> the window is empty after eviction, the scorer is fitted on
  no samples, and its ValueError leaves \<open>detect_anomalies\<close>.
\<close>

theorem C6_stale_window_of_unobserved_metric:
  "window (snd (detect_anomalies demo_detector_config demo_score 172800000000 [(''memory_usage'', 60)]
       (snd (detect_anomalies demo_detector_config demo_score 0 [(''cpu_usage'', 50)] Map.empty))))
     ''cpu_usage'' = [\<lparr>pt_timestamp = 0, pt_value = 50\<rparr>]
   \<and> \<not> (172800000000 - pt_timestamp \<lparr>pt_timestamp = 0, pt_value = 50\<rparr>
          < training_period_days demo_detector_config * microseconds_per_day)
   \<and> detect_anomalies degenerate_detector_config demo_score 0 [(''cpu_usage'', 50)] Map.empty
     = (Inl (ValueError ''Found array with 0 sample(s)''), [''cpu_usage'' \<mapsto> []])"
  by (simp add: detect_anomalies_def observe_metric_def update_history_def window_def
        demo_detector_config_def degenerate_detector_config_def microseconds_per_day_def
        check_metric_anomaly_def lookup_def err_bind_def demo_score_def)

text \<open>Observed again two days later, \<open>cpu_usage\<close> keeps only the new sample.\<close>

theorem C6_second_call_evicts:
  "window (snd (detect_anomalies demo_detector_config demo_score 172800000000 [(''cpu_usage'', 60)]
       [''cpu_usage'' \<mapsto> [\<lparr>pt_timestamp = 0, pt_value = 50\<rparr>]])) ''cpu_usage''
     = [\<lparr>pt_timestamp = 172800000000, pt_value = 60\<rparr>]
   \<and> 172800000000 - pt_timestamp \<lparr>pt_timestamp = 172800000000, pt_value = 60\<rparr>
        < training_period_days demo_detector_config * microseconds_per_day"
proof -
  let ?h = "[''cpu_usage'' \<mapsto> [\<lparr>pt_timestamp = 0, pt_value = 50\<rparr>]]"
  let ?p = "\<lparr>pt_timestamp = 172800000000, pt_value = 60\<rparr>"
  have run: "detect_anomalies demo_detector_config demo_score 172800000000 [(''cpu_usage'', 60)] ?h
      = (Inr [], [''cpu_usage'' \<mapsto> [?p]])"
    by (simp add: detect_anomalies_def observe_metric_def update_history_def window_def
        demo_detector_config_def microseconds_per_day_def)
  have d: "distinct (map fst [(''cpu_usage'', 60::real)])"
    and mem: "(''cpu_usage'', 60) \<in> set [(''cpu_usage'', 60::real)]" by simp_all
  have w: "window [''cpu_usage'' \<mapsto> [?p]] ''cpu_usage'' = [?p]" by (simp add: window_def)
  from C6_observed_windows_within_retention[OF d mem run]
  have "\<forall>p \<in> set (window [''cpu_usage'' \<mapsto> [?p]] ''cpu_usage'').
     172800000000 - pt_timestamp p < training_period_days demo_detector_config * microseconds_per_day"
    by blast
  then have "172800000000 - pt_timestamp ?p
      < training_period_days demo_detector_config * microseconds_per_day"
    unfolding w by simp
  then show ?thesis unfolding run using w by simp
qed

lemma calculate_severity_mono:
  assumes "\<bar>s\<bar> \<le> \<bar>s'\<bar>"
  shows "\<exists>l l'. severity_levels (calculate_severity s) = Some l
           \<and> severity_levels (calculate_severity s') = Some l' \<and> l \<le> l'"
  using assms by (simp add: calculate_severity_def severity_levels_def Let_def)

lemma calculate_confidence_mono:
  "\<bar>s\<bar> \<le> \<bar>s'\<bar> \<Longrightarrow> calculate_confidence s \<le> calculate_confidence s'"
  by (simp add: calculate_confidence_def min_def)

text \<open>
  C7. Let \<open>s\<close> be the value of \<open>score_samples\<close> for an observation whose window holds at
  least \<open>minimum_datapoints\<close> entries; the outlier score is \<open>- s\<close> (scikit-learn returns
  the negated anomaly score, never a positive number). The call returns an anomaly for
  the metric exactly when the outlier score exceeds \<open>anomaly_threshold\<close>; its severity is
  one of low, medium, high, critical, the band in which the excess of the outlier score
  over the threshold falls (the bands are cut where the outlier score itself passes 0.4,
  0.6 and 0.8); its confidence is a function of the same score, at most 99.9; and both
  are monotonic in how far the outlier score exceeds the threshold, the severity in the
  order of the alert manager's \<open>severity_levels\<close>.
\<close>

theorem C7_anomaly_iff_score_exceeds_threshold:
  assumes d: "distinct (map fst metrics)" and mem: "(m, v) \<in> set metrics"
    and run: "detect_anomalies cfg sc now metrics h = (Inr anoms, h')"
    and big: "minimum_datapoints cfg \<le> int (length (window (update_history cfg now m v h) m))"
    and score: "sc (map pt_value (window (update_history cfg now m v h) m)) v = Inr s"
    and range: "s \<le> 0"
  shows "filter (\<lambda>a. metric a = m) anoms =
           (if - s > anomaly_threshold cfg
            then [\<lparr>metric = m, current_value = v, severity = calculate_severity s,
                    confidence = calculate_confidence s, timestamp = now,
                    suggested_actions = suggest_actions m v (calculate_severity s)\<rparr>]
            else [])
       \<and> calculate_severity s \<in> {''low'', ''medium'', ''high'', ''critical''}
       \<and> calculate_severity s =
           (let excess = - s - anomaly_threshold cfg in
            if excess > 0.8 - anomaly_threshold cfg then ''critical''
            else if excess > 0.6 - anomaly_threshold cfg then ''high''
            else if excess > 0.4 - anomaly_threshold cfg then ''medium''
            else ''low'')
       \<and> calculate_confidence s = min ((anomaly_threshold cfg + (- s - anomaly_threshold cfg)) * 100) 99.9
       \<and> calculate_confidence s \<le> 99.9
       \<and> (\<forall>s'. s' \<le> 0 \<and> - s - anomaly_threshold cfg \<le> - s' - anomaly_threshold cfg \<longrightarrow>
             calculate_confidence s \<le> calculate_confidence s'
             \<and> (\<exists>l l'. severity_levels (calculate_severity s) = Some l
                   \<and> severity_levels (calculate_severity s') = Some l' \<and> l \<le> l'))"
proof -
  note ch = detect_anomalies_distinct[OF d run]
  from ch have "anoms = concat (map (\<lambda>(m, v). found (fst (observe_metric cfg sc now m v h))) metrics)"
    by blast
  then have "filter (\<lambda>a. metric a = m) anoms = found (fst (observe_metric cfg sc now m v h))"
    using filter_found_distinct[OF d mem] by simp
  then have a: "filter (\<lambda>a. metric a = m) anoms =
           (if - s > anomaly_threshold cfg
            then [\<lparr>metric = m, current_value = v, severity = calculate_severity s,
                    confidence = calculate_confidence s, timestamp = now,
                    suggested_actions = suggest_actions m v (calculate_severity s)\<rparr>]
            else [])"
    using observe_big[of cfg now m v h sc s] big score by (simp add: found_def)
  have b: "calculate_severity s \<in> {''low'', ''medium'', ''high'', ''critical''}"
    by (simp add: calculate_severity_def Let_def)
  have c: "calculate_confidence s \<le> 99.9" by (simp add: calculate_confidence_def)
  have bands: "calculate_severity s =
           (let excess = - s - anomaly_threshold cfg in
            if excess > 0.8 - anomaly_threshold cfg then ''critical''
            else if excess > 0.6 - anomaly_threshold cfg then ''high''
            else if excess > 0.4 - anomaly_threshold cfg then ''medium''
            else ''low'')"
    using range by (simp add: calculate_severity_def Let_def)
  have conf: "calculate_confidence s = min ((anomaly_threshold cfg + (- s - anomaly_threshold cfg)) * 100) 99.9"
    using range by (simp add: calculate_confidence_def)
  have e: "calculate_confidence s \<le> calculate_confidence s'
             \<and> (\<exists>l l'. severity_levels (calculate_severity s) = Some l
                   \<and> severity_levels (calculate_severity s') = Some l' \<and> l \<le> l')"
    if "s' \<le> 0" "- s - anomaly_threshold cfg \<le> - s' - anomaly_threshold cfg" for s'
  proof -
    from that range have "\<bar>s\<bar> \<le> \<bar>s'\<bar>" by simp
    then show ?thesis using calculate_confidence_mono calculate_severity_mono by blast
  qed
  show ?thesis using a b bands conf c e by blast
qed


text \<open>
  A value of 95 after one of 40, scored at -0.7 against a threshold of 0.5: flagged with
  severity high and confidence 70.
\<close>

theorem C7_cpu_spike_flagged:
  "fst (detect_anomalies demo_detector_config demo_score 1000000 [(''cpu_usage'', 95)]
          [''cpu_usage'' \<mapsto> [\<lparr>pt_timestamp = 0, pt_value = 40\<rparr>]])
     = Inr [\<lparr>metric = ''cpu_usage'', current_value = 95, severity = ''high'', confidence = 70,
             timestamp = 1000000,
             suggested_actions =
               [''Scale up the service horizontally'', ''Check for CPU-intensive processes'',
                ''Review recent deployments'', ''Analyze application profiling data'',
                ''Monitor closely for next hour'', ''Prepare for potential escalation'',
                ''Review related metrics'']\<rparr>]
   \<and> calculate_severity (- 0.7) \<in> {''low'', ''medium'', ''high'', ''critical''}
   \<and> calculate_confidence (- 0.7) \<le> 99.9
   \<and> calculate_confidence (- 0.7) \<le> calculate_confidence (- 0.9)"
proof -
  let ?h = "[''cpu_usage'' \<mapsto> [\<lparr>pt_timestamp = 0, pt_value = 40\<rparr>]]"
  let ?w = "[\<lparr>pt_timestamp = 0, pt_value = 40\<rparr>, \<lparr>pt_timestamp = 1000000, pt_value = 95\<rparr>]"
  let ?a = "\<lparr>metric = ''cpu_usage'', current_value = 95, severity = calculate_severity (- 0.7),
             confidence = calculate_confidence (- 0.7), timestamp = 1000000,
             suggested_actions = suggest_actions ''cpu_usage'' 95 (calculate_severity (- 0.7))\<rparr>"
  have up: "update_history demo_detector_config 1000000 ''cpu_usage'' 95 ?h = [''cpu_usage'' \<mapsto> ?w]"
    by (simp add: update_history_def window_def demo_detector_config_def microseconds_per_day_def)
  have w: "window (update_history demo_detector_config 1000000 ''cpu_usage'' 95 ?h) ''cpu_usage'' = ?w"
    unfolding up by (simp add: window_def)
  have big: "minimum_datapoints demo_detector_config
      \<le> int (length (window (update_history demo_detector_config 1000000 ''cpu_usage'' 95 ?h) ''cpu_usage''))"
    unfolding w by (simp add: demo_detector_config_def)
  have score: "demo_score (map pt_value
      (window (update_history demo_detector_config 1000000 ''cpu_usage'' 95 ?h) ''cpu_usage'')) 95
      = Inr (- 0.7)"
    unfolding w by (simp add: demo_score_def)
  have thr: "- (- 0.7) > anomaly_threshold demo_detector_config"
    by (simp add: demo_detector_config_def)
  have ob: "observe_metric demo_detector_config demo_score 1000000 ''cpu_usage'' 95 ?h
      = (Inr (Some ?a), [''cpu_usage'' \<mapsto> ?w])"
    using observe_big[of demo_detector_config 1000000 "''cpu_usage''" 95 ?h demo_score "- 0.7"]
      big score thr up by simp
  have run: "detect_anomalies demo_detector_config demo_score 1000000 [(''cpu_usage'', 95)] ?h
      = (Inr [?a], [''cpu_usage'' \<mapsto> ?w])"
    by (simp add: detect_anomalies_def ob)
  have d: "distinct (map fst [(''cpu_usage'', 95::real)])"
    and mem: "(''cpu_usage'', 95) \<in> set [(''cpu_usage'', 95::real)]" by simp_all
  have range: "- 0.7 \<le> (0::real)" by simp
  note t = C7_anomaly_iff_score_exceeds_threshold[OF d mem run big score range]
  have sev: "calculate_severity (- 0.7) = ''high''" by (simp add: calculate_severity_def)
  have conf: "calculate_confidence (- 0.7) = 70" by (simp add: calculate_confidence_def)
  have act: "suggest_actions ''cpu_usage'' 95 ''high'' =
               [''Scale up the service horizontally'', ''Check for CPU-intensive processes'',
                ''Review recent deployments'', ''Analyze application profiling data'',
                ''Monitor closely for next hour'', ''Prepare for potential escalation'',
                ''Review related metrics'']"
    by (simp add: suggest_actions_def)
  from t have m1: "calculate_severity (- 0.7) \<in> {''low'', ''medium'', ''high'', ''critical''}"
    and m2: "calculate_confidence (- 0.7) \<le> 99.9" by blast+
  from t have "(- 0.9::real) \<le> 0 \<and> - (- 0.7) - anomaly_threshold demo_detector_config
        \<le> - (- 0.9) - anomaly_threshold demo_detector_config
      \<longrightarrow> calculate_confidence (- 0.7) \<le> calculate_confidence (- 0.9)" by blast
  then have m3: "calculate_confidence (- 0.7) \<le> calculate_confidence (- 0.9)" by simp
  show ?thesis unfolding run using m1 m2 m3 sev conf act by simp
qed

section \<open>Properties of the alert manager\<close>

lemma process_anomalies_append:
  "process_anomalies cfg (pre @ post) st = (None, st_end) \<Longrightarrow>
   \<exists>st_i. process_anomalies cfg pre st = (None, st_i) \<and> process_anomalies cfg post st_i = (None, st_end)"
proof (induction pre arbitrary: st)
  case Nil
  then show ?case by simp
next
  case (Cons x pre)
  obtain now a where x: "x = (now, a)" by (cases x)
  obtain eo st1 where b: "process_anomaly cfg now a st = (eo, st1)" by (cases "process_anomaly cfg now a st")
  show ?case
  proof (cases eo)
    case None
    with Cons.prems x b have "process_anomalies cfg (pre @ post) st1 = (None, st_end)" by simp
    from Cons.IH[OF this] show ?thesis using x b None by simp
  next
    case (Some e)
    with Cons.prems x b show ?thesis by simp
  qed
qed

lemma recent_alerts_empty:
  "(filter (\<lambda>al. alert_metric al = metric a
                  \<and> total_seconds (now - alert_timestamp al) < alert_cooldown cfg) history = [])
   = cooldown_clear cfg now history a"
  by (auto simp: cooldown_clear_def filter_empty_conv list_all_iff not_less)

lemma should_alert_cases:
  "should_alert cfg now history a =
     (if \<not> cooldown_clear cfg now history a then Inr False
      else case severity_levels (severity a) of
             None \<Rightarrow> Inl (KeyError (severity a))
           | Some level \<Rightarrow>
               (case severity_levels (minimum_severity cfg) of
                  None \<Rightarrow> Inl (KeyError (minimum_severity cfg))
                | Some minimum \<Rightarrow> Inr (minimum \<le> level)))"
  using recent_alerts_empty[of a now cfg history]
  by (simp add: should_alert_def Let_def err_bind_def lookup_def split: option.splits)

lemma should_alert_True:
  "should_alert cfg now history a = Inr True \<longleftrightarrow> cooldown_clear cfg now history a \<and> severe_enough cfg a"
  by (auto simp: should_alert_cases severe_enough_def split: option.splits)

lemma process_anomaly_None:
  assumes "process_anomaly cfg now a st = (None, st')"
  shows "if cooldown_clear cfg now (alert_history st) a \<and> severe_enough cfg a
         then \<exists>al tasks. create_alert cfg now a = Inr al
                \<and> set tasks \<subseteq> fst ` set (alert_channels cfg)
                \<and> st' = \<lparr>alert_history = alert_history st @ [al],
                          dispatched = dispatched st @ map (\<lambda>channel. (channel, al)) tasks\<rparr>
         else st' = st"
proof (cases "should_alert cfg now (alert_history st) a")
  case (Inl e)
  with assms show ?thesis by (simp add: process_anomaly_def)
next
  case (Inr go)
  show ?thesis
  proof (cases go)
    case False
    with Inr assms have "st' = st" by (simp add: process_anomaly_def)
    moreover from False Inr should_alert_True[of cfg now "alert_history st" a]
    have "\<not> (cooldown_clear cfg now (alert_history st) a \<and> severe_enough cfg a)" by simp
    ultimately show ?thesis by auto
  next
    case True
    with Inr should_alert_True[of cfg now "alert_history st" a]
    have c: "cooldown_clear cfg now (alert_history st) a \<and> severe_enough cfg a" by simp
    from assms Inr True obtain al tasks where al: "create_alert cfg now a = Inr al"
      and t: "collect_tasks cfg al (alert_channels cfg) = Inr tasks"
      and s: "st' = \<lparr>alert_history = alert_history st @ [al],
                          dispatched = dispatched st @ map (\<lambda>channel. (channel, al)) tasks\<rparr>"
      by (auto simp: process_anomaly_def send_alerts_def split: sum.splits prod.splits option.splits)
    have sub: "set tasks \<subseteq> fst ` set chans" if "collect_tasks cfg al chans = Inr tasks" for chans tasks
      using that
    proof (induction chans arbitrary: tasks)
      case Nil
      then show ?case by simp
    next
      case (Cons c chans)
      then show ?case
        by (cases c) (auto simp: err_bind_def split: sum.splits if_splits)
    qed
    show ?thesis using c al s sub[OF t] by auto
  qed
qed


lemma process_anomaly_cooldown:
  "\<not> cooldown_clear cfg now (alert_history st) a \<Longrightarrow> process_anomaly cfg now a st = (None, st)"
  by (simp add: process_anomaly_def should_alert_cases)

lemma process_anomaly_below_minimum:
  "severity_levels (severity a) = Some level \<Longrightarrow>
   severity_levels (minimum_severity cfg) = Some minimum \<Longrightarrow> level < minimum \<Longrightarrow>
   process_anomaly cfg now a st = (None, st)"
  by (simp add: process_anomaly_def should_alert_cases)

text \<open>
  C10. Take any anomaly of a batch that \<open>process_anomalies\<close> handles without raising. If,
  in the history as it stands when the anomaly is reached, no alert for the same metric
  is newer than \<open>alert_cooldown\<close> seconds and the anomaly's severity is at least
  \<open>minimum_severity\<close>, one alert for it is created, handed to channels of the
  configuration and appended to \<open>alert_history\<close>; otherwise the state is unchanged:
  nothing is sent or recorded. An anomaly inside the cooldown, or one of a known
  severity below the minimum, is dropped without an exception.
\<close>

theorem C10_alert_only_after_cooldown_and_severity:
  assumes run: "process_anomalies cfg (pre @ (now, a) # post) st = (None, st_end)"
  shows "(\<exists>st_i st_j.
            process_anomalies cfg pre st = (None, st_i)
          \<and> process_anomaly cfg now a st_i = (None, st_j)
          \<and> process_anomalies cfg post st_j = (None, st_end)
          \<and> (if cooldown_clear cfg now (alert_history st_i) a \<and> severe_enough cfg a
              then \<exists>al tasks. create_alert cfg now a = Inr al
                     \<and> set tasks \<subseteq> fst ` set (alert_channels cfg)
                     \<and> st_j = \<lparr>alert_history = alert_history st_i @ [al],
                               dispatched = dispatched st_i @ map (\<lambda>channel. (channel, al)) tasks\<rparr>
              else st_j = st_i))
       \<and> (\<forall>st0. \<not> cooldown_clear cfg now (alert_history st0) a \<longrightarrow>
             process_anomaly cfg now a st0 = (None, st0))
       \<and> (\<forall>st0 level minimum.
             severity_levels (severity a) = Some level
             \<and> severity_levels (minimum_severity cfg) = Some minimum \<and> level < minimum \<longrightarrow>
             process_anomaly cfg now a st0 = (None, st0))"
proof -
  from process_anomalies_append[OF run] obtain st_i where
    pre: "process_anomalies cfg pre st = (None, st_i)"
    and rest: "process_anomalies cfg ((now, a) # post) st_i = (None, st_end)" by blast
  obtain eo st_j where body: "process_anomaly cfg now a st_i = (eo, st_j)"
    by (cases "process_anomaly cfg now a st_i")
  from rest body have eo: "eo = None" and post: "process_anomalies cfg post st_j = (None, st_end)"
    by (cases eo; simp)+
  note shape = process_anomaly_None[OF body[unfolded eo]]
  have first: "\<exists>st_i st_j.
            process_anomalies cfg pre st = (None, st_i)
          \<and> process_anomaly cfg now a st_i = (None, st_j)
          \<and> process_anomalies cfg post st_j = (None, st_end)
          \<and> (if cooldown_clear cfg now (alert_history st_i) a \<and> severe_enough cfg a
              then \<exists>al tasks. create_alert cfg now a = Inr al
                     \<and> set tasks \<subseteq> fst ` set (alert_channels cfg)
                     \<and> st_j = \<lparr>alert_history = alert_history st_i @ [al],
                               dispatched = dispatched st_i @ map (\<lambda>channel. (channel, al)) tasks\<rparr>
              else st_j = st_i)"
    using pre body eo post shape by blast
  show ?thesis using first process_anomaly_cooldown process_anomaly_below_minimum by blast
qed

text \<open>
  A high \<open>cpu_usage\<close> anomaly raises an alert on both channels; a critical one ten seconds
  later falls in the cooldown; a low \<open>memory_usage\<close> one is below the minimum severity.
\<close>

theorem C10_cooldown_and_severity_scenario:
  "process_anomalies demo_alert_config
     [(0, demo_anomaly ''cpu_usage'' ''high''), (10000000, demo_anomaly ''cpu_usage'' ''critical''),
      (20000000, demo_anomaly ''memory_usage'' ''low'')]
     \<lparr>alert_history = [], dispatched = []\<rparr>
   = (None, \<lparr>alert_history = [demo_alert], dispatched = [(''slack'', demo_alert), (''email'', demo_alert)]\<rparr>)
   \<and> process_anomaly demo_alert_config 10000000 (demo_anomaly ''cpu_usage'' ''critical'')
       \<lparr>alert_history = [demo_alert], dispatched = [(''slack'', demo_alert), (''email'', demo_alert)]\<rparr>
     = (None, \<lparr>alert_history = [demo_alert], dispatched = [(''slack'', demo_alert), (''email'', demo_alert)]\<rparr>)"
proof -
  let ?s0 = "\<lparr>alert_history = [], dispatched = []\<rparr>"
  let ?s1 = "\<lparr>alert_history = [demo_alert], dispatched = [(''slack'', demo_alert), (''email'', demo_alert)]\<rparr>"
  let ?a1 = "demo_anomaly ''cpu_usage'' ''high''"
  let ?a2 = "demo_anomaly ''cpu_usage'' ''critical''"
  let ?a3 = "demo_anomaly ''memory_usage'' ''low''"
  have b1: "process_anomaly demo_alert_config 0 ?a1 ?s0 = (None, ?s1)"
    by (simp add: process_anomaly_def should_alert_cases cooldown_clear_def severity_levels_def demo_anomaly_def
          demo_alert_config_def create_alert_def generate_alert_description_def err_bind_def lookup_def
          send_alerts_def is_channel_appropriate_def demo_alert_def)
  have c2: "\<not> cooldown_clear demo_alert_config 10000000 (alert_history ?s1) ?a2"
    by (simp add: cooldown_clear_def demo_alert_def demo_anomaly_def demo_alert_config_def
          total_seconds_def)
  have b3: "process_anomaly demo_alert_config 20000000 ?a3 ?s1 = (None, ?s1)"
    by (simp add: process_anomaly_def should_alert_cases severity_levels_def demo_anomaly_def
          demo_alert_config_def cooldown_clear_def demo_alert_def)
  have b2: "process_anomaly demo_alert_config 10000000 ?a2 ?s1 = (None, ?s1)"
    using c2 by (simp add: process_anomaly_def should_alert_cases)
  have pre: "process_anomalies demo_alert_config [(0, ?a1)] ?s0 = (None, ?s1)"
    by (simp add: b1)
  have run: "process_anomalies demo_alert_config ([(0, ?a1)] @ (10000000, ?a2) # [(20000000, ?a3)]) ?s0
      = (None, ?s1)"
    by (simp add: b1 b2 b3)
  from C10_alert_only_after_cooldown_and_severity[OF run]
  obtain st_i st_j where i: "process_anomalies demo_alert_config [(0, ?a1)] ?s0 = (None, st_i)"
    and j: "process_anomaly demo_alert_config 10000000 ?a2 st_i = (None, st_j)"
    and sh: "if cooldown_clear demo_alert_config 10000000 (alert_history st_i) ?a2
                \<and> severe_enough demo_alert_config ?a2
             then \<exists>al tasks. create_alert demo_alert_config 10000000 ?a2 = Inr al
                     \<and> set tasks \<subseteq> fst ` set (alert_channels demo_alert_config)
                     \<and> st_j = \<lparr>alert_history = alert_history st_i @ [al],
                               dispatched = dispatched st_i @ map (\<lambda>channel. (channel, al)) tasks\<rparr>
             else st_j = st_i"
    by blast
  from i pre have si: "st_i = ?s1" by simp
  from sh c2 have "st_j = st_i" unfolding si by simp
  with j si have "process_anomaly demo_alert_config 10000000 ?a2 ?s1 = (None, ?s1)" by simp
  then show ?thesis using run by simp
qed

section \<open>Properties of the canary analyzer\<close>

lemma err_bind_Inr: "err_bind m f = Inr y \<longleftrightarrow> (\<exists>x. m = Inr x \<and> f x = Inr y)"
  by (cases m) (simp_all add: err_bind_def)

lemma err_bind_Inl: "err_bind m f = Inl e \<longleftrightarrow> m = Inl e \<or> (\<exists>x. m = Inr x \<and> f x = Inl e)"
  by (cases m) (simp_all add: err_bind_def)

lemma lookup_no_zero_division: "lookup d k \<noteq> Inl ZeroDivisionError"
  by (simp add: lookup_def split: option.splits)

lemma required_no_zero_division: "required k v \<noteq> Inl ZeroDivisionError"
  by (simp add: required_def split: option.splits)

lemma determine_impact_level_no_zero_division:
  "determine_impact_level cfg d \<noteq> Inl ZeroDivisionError"
  by (auto simp: determine_impact_level_def Let_def err_bind_Inl lookup_no_zero_division split: if_splits)

lemma compare_metric_no_zero_division: "compare_metric cfg k b c \<noteq> Inl ZeroDivisionError"
  by (auto simp: compare_metric_def Let_def err_bind_Inl lookup_no_zero_division
        required_no_zero_division determine_impact_level_no_zero_division)

lemma compare_metric_difference:
  "compare_metric cfg k b c = Inr ma \<Longrightarrow>
   difference_percentage ma = (if b = 0 then 0 else (c - b) / b * 100)"
  by (auto simp: compare_metric_def Let_def err_bind_Inr calculate_metric_difference_def)


lemma penalty_range: "0 \<le> penalty i \<and> penalty i \<le> 1"
  by (cases i) simp_all

lemma penalty_mono: "impact_rank i \<le> impact_rank j \<Longrightarrow> penalty i \<le> penalty j"
  by (cases i; cases j) simp_all

lemma category_score_eq: "category_score entries = 1 - penalty (worst_significant_impact entries)"
  using penalty_range[of "worst_significant_impact entries"] by (simp add: category_score_def)

lemma weighted_Inr:
  "calculate_overall_score cfg dm = Inr x \<longleftrightarrow>
     (\<exists>wp we wr wu. configured_weights cfg ''performance_score'' = Some wp
        \<and> configured_weights cfg ''error_score'' = Some we
        \<and> configured_weights cfg ''resource_score'' = Some wr
        \<and> configured_weights cfg ''user_impact_score'' = Some wu
        \<and> x = min 1 (max 0 (performance_score dm * wp + error_score dm * we
                             + resource_score dm * wr + user_impact_score dm * wu)))"
  by (auto simp: calculate_overall_score_def Let_def err_bind_Inr lookup_def split: option.splits)

lemma confidence_Inr:
  "calculate_decision_confidence cfg dm = Inr x \<longleftrightarrow>
     (\<exists>wp we wr wu. configured_weights cfg ''performance_score'' = Some wp
        \<and> configured_weights cfg ''error_score'' = Some we
        \<and> configured_weights cfg ''resource_score'' = Some wr
        \<and> configured_weights cfg ''user_impact_score'' = Some wu
        \<and> x = min 1 (max 0 (performance_score dm * wp + error_score dm * we
                             + resource_score dm * wr + user_impact_score dm * wu)))"
  by (auto simp: calculate_decision_confidence_def Let_def err_bind_Inr lookup_def split: option.splits)

lemma decision_shape:
  assumes "make_promotion_decision cfg g ar = Inr d"
  shows "\<exists>wp we wr wu t.
           configured_weights cfg ''performance_score'' = Some wp
         \<and> configured_weights cfg ''error_score'' = Some we
         \<and> configured_weights cfg ''resource_score'' = Some wr
         \<and> configured_weights cfg ''user_impact_score'' = Some wu
         \<and> promotion_threshold cfg = Some t
         \<and> metrics_scores d =
             \<lparr>performance_score = calculate_performance_score (performance_analysis ar),
              error_score = calculate_error_score (error_analysis ar),
              resource_score = calculate_resource_score (resource_analysis ar),
              user_impact_score = calculate_user_impact_score (user_impact_analysis ar)\<rparr>
         \<and> overall_score d =
             min 1 (max 0 (performance_score (metrics_scores d) * wp + error_score (metrics_scores d) * we
                  + resource_score (metrics_scores d) * wr + user_impact_score (metrics_scores d) * wu))
         \<and> decision_confidence d = overall_score d
         \<and> promote d = (overall_score d \<ge> t)"
proof -
  let ?dm = "\<lparr>performance_score = calculate_performance_score (performance_analysis ar),
              error_score = calculate_error_score (error_analysis ar),
              resource_score = calculate_resource_score (resource_analysis ar),
              user_impact_score = calculate_user_impact_score (user_impact_analysis ar)\<rparr>"
  from assms obtain overall t conf where
    o: "calculate_overall_score cfg ?dm = Inr overall"
    and t: "required ''promotion_threshold'' (promotion_threshold cfg) = Inr t"
    and c: "calculate_decision_confidence cfg ?dm = Inr conf"
    and d: "d = \<lparr>promote = (overall \<ge> t), overall_score = overall, metrics_scores = ?dm,
                 decision_confidence = conf, reasons = g (overall \<ge> t) ?dm ar\<rparr>"
    by (auto simp: make_promotion_decision_def Let_def err_bind_Inr)
  from t have t': "promotion_threshold cfg = Some t" by (simp add: required_def split: option.splits)
  from o c show ?thesis unfolding weighted_Inr confidence_Inr using t' d by auto
qed


lemma analyze_performance_Inr:
  "analyze_performance cfg baseline canary = Inr pa \<Longrightarrow>
   \<exists>b c. performance baseline = Some b \<and> performance canary = Some c
     \<and> compare_metric cfg ''latency'' (latency b) (latency c) = Inr (pa_latency pa)
     \<and> compare_metric cfg ''throughput'' (throughput b) (throughput c) = Inr (pa_throughput pa)
     \<and> compare_metric cfg ''success_rate'' (success_rate b) (success_rate c) = Inr (pa_success_rate pa)"
  by (auto simp: analyze_performance_def err_bind_Inr required_def split: option.splits)

lemma analyze_errors_Inr:
  "analyze_errors cfg aet baseline canary = Inr ea \<Longrightarrow>
   \<exists>b c. errors baseline = Some b \<and> errors canary = Some c
     \<and> compare_metric cfg ''error_rate'' (error_rate b) (error_rate c) = Inr (ea_error_rate ea)"
  by (auto simp: analyze_errors_def err_bind_Inr required_def split: option.splits)

lemma analyze_resources_Inr:
  "analyze_resources cfg baseline canary = Inr ra \<Longrightarrow>
   \<exists>b c. resources baseline = Some b \<and> resources canary = Some c
     \<and> compare_metric cfg ''cpu'' (cpu_usage b) (cpu_usage c) = Inr (ra_cpu ra)
     \<and> compare_metric cfg ''memory'' (memory_usage b) (memory_usage c) = Inr (ra_memory ra)"
  by (auto simp: analyze_resources_def err_bind_Inr required_def split: option.splits)

lemma analyses_no_zero_division:
  "analyze_performance cfg baseline canary \<noteq> Inl ZeroDivisionError"
  "analyze_errors cfg aet baseline canary \<noteq> Inl ZeroDivisionError"
  "analyze_resources cfg baseline canary \<noteq> Inl ZeroDivisionError"
  by (auto simp: analyze_performance_def analyze_errors_def analyze_resources_def err_bind_Inl
        required_no_zero_division compare_metric_no_zero_division)

text \<open>
  C1. For every metric compared by \<open>_analyze_performance\<close>, \<open>_analyze_errors\<close> and
  \<open>_analyze_resources\<close>, the \<open>difference_percentage\<close> of the result is 0 when the baseline
  value is 0 and \<open>(canary - baseline) / baseline * 100\<close> otherwise, and none of the three
  raises ZeroDivisionError.
\<close>

theorem C1_difference_percent_zero_baseline:
  "(\<forall>pa. analyze_performance cfg baseline canary = Inr pa \<longrightarrow>
      (\<exists>b c. performance baseline = Some b \<and> performance canary = Some c
         \<and> difference_percentage (pa_latency pa)
             = (if latency b = 0 then 0 else (latency c - latency b) / latency b * 100)
         \<and> difference_percentage (pa_throughput pa)
             = (if throughput b = 0 then 0 else (throughput c - throughput b) / throughput b * 100)
         \<and> difference_percentage (pa_success_rate pa)
             = (if success_rate b = 0 then 0
                else (success_rate c - success_rate b) / success_rate b * 100)))
   \<and> (\<forall>ea. analyze_errors cfg aet baseline canary = Inr ea \<longrightarrow>
      (\<exists>b c. errors baseline = Some b \<and> errors canary = Some c
         \<and> difference_percentage (ea_error_rate ea)
             = (if error_rate b = 0 then 0 else (error_rate c - error_rate b) / error_rate b * 100)))
   \<and> (\<forall>ra. analyze_resources cfg baseline canary = Inr ra \<longrightarrow>
      (\<exists>b c. resources baseline = Some b \<and> resources canary = Some c
         \<and> difference_percentage (ra_cpu ra)
             = (if cpu_usage b = 0 then 0 else (cpu_usage c - cpu_usage b) / cpu_usage b * 100)
         \<and> difference_percentage (ra_memory ra)
             = (if memory_usage b = 0 then 0
                else (memory_usage c - memory_usage b) / memory_usage b * 100)))
   \<and> analyze_performance cfg baseline canary \<noteq> Inl ZeroDivisionError
   \<and> analyze_errors cfg aet baseline canary \<noteq> Inl ZeroDivisionError
   \<and> analyze_resources cfg baseline canary \<noteq> Inl ZeroDivisionError"
proof -
  have p: "\<exists>b c. performance baseline = Some b \<and> performance canary = Some c
         \<and> difference_percentage (pa_latency pa)
             = (if latency b = 0 then 0 else (latency c - latency b) / latency b * 100)
         \<and> difference_percentage (pa_throughput pa)
             = (if throughput b = 0 then 0 else (throughput c - throughput b) / throughput b * 100)
         \<and> difference_percentage (pa_success_rate pa)
             = (if success_rate b = 0 then 0
                else (success_rate c - success_rate b) / success_rate b * 100)"
    if "analyze_performance cfg baseline canary = Inr pa" for pa
    using analyze_performance_Inr[OF that] compare_metric_difference by blast
  have e: "\<exists>b c. errors baseline = Some b \<and> errors canary = Some c
         \<and> difference_percentage (ea_error_rate ea)
             = (if error_rate b = 0 then 0 else (error_rate c - error_rate b) / error_rate b * 100)"
    if "analyze_errors cfg aet baseline canary = Inr ea" for ea
    using analyze_errors_Inr[OF that] compare_metric_difference by blast
  have r: "\<exists>b c. resources baseline = Some b \<and> resources canary = Some c
         \<and> difference_percentage (ra_cpu ra)
             = (if cpu_usage b = 0 then 0 else (cpu_usage c - cpu_usage b) / cpu_usage b * 100)
         \<and> difference_percentage (ra_memory ra)
             = (if memory_usage b = 0 then 0
                else (memory_usage c - memory_usage b) / memory_usage b * 100)"
    if "analyze_resources cfg baseline canary = Inr ra" for ra
    using analyze_resources_Inr[OF that] compare_metric_difference by blast
  show ?thesis using p e r analyses_no_zero_division by blast
qed

lemma compare_latency_demo:
  "compare_metric demo_canary_config ''latency'' 100 105
     = Inr \<lparr>difference_percentage = 5, significant = False, impact = Insignificant\<rparr>"
  by (simp add: compare_metric_def calculate_metric_difference_def demo_canary_config_def
        determine_impact_level_def default_impact_thresholds_def err_bind_def lookup_def required_def)

lemma compare_throughput_demo:
  "compare_metric demo_canary_config ''throughput'' 0 30
     = Inr \<lparr>difference_percentage = 0, significant = False, impact = Insignificant\<rparr>"
  by (simp add: compare_metric_def calculate_metric_difference_def demo_canary_config_def
        determine_impact_level_def default_impact_thresholds_def err_bind_def lookup_def required_def)

lemma compare_success_rate_demo:
  "compare_metric demo_canary_config ''success_rate'' 99 99
     = Inr \<lparr>difference_percentage = 0, significant = False, impact = Insignificant\<rparr>"
  by (simp add: compare_metric_def calculate_metric_difference_def demo_canary_config_def
        determine_impact_level_def default_impact_thresholds_def err_bind_def lookup_def required_def)

lemma compare_error_rate_demo:
  "compare_metric demo_canary_config ''error_rate'' 1 8
     = Inr \<lparr>difference_percentage = 700, significant = True, impact = High\<rparr>"
  by (simp add: compare_metric_def calculate_metric_difference_def demo_canary_config_def
        determine_impact_level_def default_impact_thresholds_def err_bind_def lookup_def required_def)

text \<open>
  A baseline throughput of 0 compares to a difference of 0, latency 100 against 105 to 5,
  and error rate 1 against 8 to 700, significant and of high impact.
\<close>

theorem C1_zero_throughput_baseline:
  "analyze_performance demo_canary_config demo_baseline demo_canary
     = Inr \<lparr>pa_latency = \<lparr>difference_percentage = 5, significant = False, impact = Insignificant\<rparr>,
            pa_throughput = \<lparr>difference_percentage = 0, significant = False, impact = Insignificant\<rparr>,
            pa_success_rate = \<lparr>difference_percentage = 0, significant = False, impact = Insignificant\<rparr>\<rparr>
   \<and> throughput \<lparr>latency = 100, throughput = 0, success_rate = 99\<rparr> = 0
   \<and> difference_percentage \<lparr>difference_percentage = 0, significant = False, impact = Insignificant\<rparr>
       = (if throughput \<lparr>latency = 100, throughput = 0, success_rate = 99\<rparr> = 0 then 0
          else (throughput \<lparr>latency = 105, throughput = 30, success_rate = 99\<rparr>
                 - throughput \<lparr>latency = 100, throughput = 0, success_rate = 99\<rparr>)
               / throughput \<lparr>latency = 100, throughput = 0, success_rate = 99\<rparr> * 100)
   \<and> analyze_errors demo_canary_config demo_error_types demo_baseline demo_canary
     = Inr \<lparr>ea_error_rate = \<lparr>difference_percentage = 700, significant = True, impact = High\<rparr>,
            ea_error_types = \<lparr>new_errors = [], resolved_errors = [], error_types_impact = Insignificant\<rparr>\<rparr>
   \<and> analyze_performance demo_canary_config demo_baseline demo_canary \<noteq> Inl ZeroDivisionError"
proof -
  let ?pa = "\<lparr>pa_latency = \<lparr>difference_percentage = 5, significant = False, impact = Insignificant\<rparr>,
            pa_throughput = \<lparr>difference_percentage = 0, significant = False, impact = Insignificant\<rparr>,
            pa_success_rate = \<lparr>difference_percentage = 0, significant = False, impact = Insignificant\<rparr>\<rparr>"
  have pa: "analyze_performance demo_canary_config demo_baseline demo_canary = Inr ?pa"
    by (simp add: analyze_performance_def demo_baseline_def demo_canary_def required_def err_bind_def
          compare_latency_demo compare_throughput_demo compare_success_rate_demo)
  note t = C1_difference_percent_zero_baseline[of demo_canary_config demo_baseline demo_canary
      demo_error_types]
  from t pa obtain b c where b: "performance demo_baseline = Some b"
    and c: "performance demo_canary = Some c"
    and th: "difference_percentage (pa_throughput ?pa)
             = (if throughput b = 0 then 0 else (throughput c - throughput b) / throughput b * 100)"
    by blast
  from b have b': "b = \<lparr>latency = 100, throughput = 0, success_rate = 99\<rparr>"
    by (simp add: demo_baseline_def)
  from c have c': "c = \<lparr>latency = 105, throughput = 30, success_rate = 99\<rparr>"
    by (simp add: demo_canary_def)
  from t have nz: "analyze_performance demo_canary_config demo_baseline demo_canary \<noteq> Inl ZeroDivisionError"
    by blast
  have ea: "analyze_errors demo_canary_config demo_error_types demo_baseline demo_canary
     = Inr \<lparr>ea_error_rate = \<lparr>difference_percentage = 700, significant = True, impact = High\<rparr>,
            ea_error_types = \<lparr>new_errors = [], resolved_errors = [], error_types_impact = Insignificant\<rparr>\<rparr>"
    by (simp add: analyze_errors_def demo_baseline_def demo_canary_def required_def err_bind_def
          compare_error_rate_demo demo_error_types_def)
  show ?thesis using pa th[unfolded b' c'] nz ea by simp
qed

text \<open>
  C4. In every decision \<open>_make_promotion_decision\<close> returns, \<open>promote\<close> is true exactly
  when the overall score is at least the configured \<open>promotion_threshold\<close>.
\<close>

theorem C4_promote_iff_score_reaches_threshold:
  assumes "make_promotion_decision cfg generate_decision_reasons analysis = Inr d"
  shows "\<exists>threshold. promotion_threshold cfg = Some threshold
           \<and> (promote d \<longleftrightarrow> overall_score d \<ge> threshold)"
  using decision_shape[OF assms] by blast

lemma category_score_demo:
  "category_score [unchanged] = 1" "category_score [] = 1"
  "category_score [unchanged, unchanged] = 1" "category_score [unchanged, unchanged, unchanged] = 1"
  "category_score [\<lparr>difference_percentage = 700, significant = True, impact = High\<rparr>] = 0"
  "category_score [\<lparr>difference_percentage = 50, significant = True, impact = High\<rparr>, unchanged, unchanged] = 0"
  by (simp_all add: category_score_def unchanged_def worse_def)

lemma error_spike_decision:
  "make_promotion_decision demo_canary_config demo_reasons error_spike_analysis
     = Inr \<lparr>promote = False, overall_score = 0.7,
            metrics_scores = \<lparr>performance_score = 1, error_score = 0, resource_score = 1,
                               user_impact_score = 1\<rparr>,
            decision_confidence = 0.7, reasons = []\<rparr>"
  by (simp add: make_promotion_decision_def error_spike_analysis_def quiet_analysis_def
        calculate_performance_score_def calculate_error_score_def calculate_resource_score_def
        calculate_user_impact_score_def category_score_demo calculate_overall_score_def
        calculate_decision_confidence_def configured_weights_def default_confidence_weights_def
        demo_canary_config_def err_bind_def lookup_def required_def demo_reasons_def)

text \<open>An overall score of 0.7 against a threshold of 0.8: not promoted.\<close>

theorem C4_error_spike_not_promoted:
  "make_promotion_decision demo_canary_config demo_reasons error_spike_analysis
     = Inr \<lparr>promote = False, overall_score = 0.7,
            metrics_scores = \<lparr>performance_score = 1, error_score = 0, resource_score = 1,
                               user_impact_score = 1\<rparr>,
            decision_confidence = 0.7, reasons = []\<rparr>
   \<and> promotion_threshold demo_canary_config = Some 0.8
   \<and> (False \<longleftrightarrow> (0.7::real) \<ge> 0.8)"
proof -
  from C4_promote_iff_score_reaches_threshold[OF error_spike_decision]
  obtain t where t: "promotion_threshold demo_canary_config = Some t"
    and iff: "False \<longleftrightarrow> (0.7::real) \<ge> t" by auto
  have "promotion_threshold demo_canary_config = Some 0.8"
    by (simp add: demo_canary_config_def)
  with t iff show ?thesis using error_spike_decision by simp
qed

text \<open>
  C8. In every decision \<open>_make_promotion_decision\<close> returns, the overall score and the
  confidence both are the sum of the four category scores weighted by the configured
  weights, which are 0.4, 0.3, 0.2 and 0.1 when none are configured, clamped to [0,1].
\<close>

theorem C8_weighted_sum_clamped:
  assumes "make_promotion_decision cfg generate_decision_reasons analysis = Inr d"
  shows "\<exists>wp we wr wu.
           configured_weights cfg ''performance_score'' = Some wp
         \<and> configured_weights cfg ''error_score'' = Some we
         \<and> configured_weights cfg ''resource_score'' = Some wr
         \<and> configured_weights cfg ''user_impact_score'' = Some wu
         \<and> (confidence_weights cfg = None \<longrightarrow> wp = 0.4 \<and> we = 0.3 \<and> wr = 0.2 \<and> wu = 0.1)
         \<and> overall_score d =
             min 1 (max 0 (performance_score (metrics_scores d) * wp + error_score (metrics_scores d) * we
                  + resource_score (metrics_scores d) * wr + user_impact_score (metrics_scores d) * wu))
         \<and> decision_confidence d =
             min 1 (max 0 (performance_score (metrics_scores d) * wp + error_score (metrics_scores d) * we
                  + resource_score (metrics_scores d) * wr + user_impact_score (metrics_scores d) * wu))
         \<and> 0 \<le> overall_score d \<and> overall_score d \<le> 1
         \<and> 0 \<le> decision_confidence d \<and> decision_confidence d \<le> 1"
proof -
  from decision_shape[OF assms] obtain wp we wr wu where
    w: "configured_weights cfg ''performance_score'' = Some wp"
       "configured_weights cfg ''error_score'' = Some we"
       "configured_weights cfg ''resource_score'' = Some wr"
       "configured_weights cfg ''user_impact_score'' = Some wu"
    and o: "overall_score d =
             min 1 (max 0 (performance_score (metrics_scores d) * wp + error_score (metrics_scores d) * we
                  + resource_score (metrics_scores d) * wr + user_impact_score (metrics_scores d) * wu))"
    and c: "decision_confidence d = overall_score d"
    by blast
  have dflt: "wp = 0.4 \<and> we = 0.3 \<and> wr = 0.2 \<and> wu = 0.1" if "confidence_weights cfg = None"
    using w that by (simp add: configured_weights_def default_confidence_weights_def)
  have range: "0 \<le> overall_score d \<and> overall_score d \<le> 1" unfolding o by simp
  show ?thesis using w o c dflt range by (intro exI[of _ wp] exI[of _ we] exI[of _ wr] exI[of _ wu]) simp
qed


text \<open>With the default weights and an error score of 0: 0.4 + 0 + 0.2 + 0.1 = 0.7.\<close>

theorem C8_default_weights_scenario:
  "make_promotion_decision demo_canary_config demo_reasons error_spike_analysis
     = Inr \<lparr>promote = False, overall_score = 0.7,
            metrics_scores = \<lparr>performance_score = 1, error_score = 0, resource_score = 1,
                               user_impact_score = 1\<rparr>,
            decision_confidence = 0.7, reasons = []\<rparr>
   \<and> confidence_weights demo_canary_config = None
   \<and> (0.7::real) = min 1 (max 0 (1 * 0.4 + 0 * 0.3 + 1 * 0.2 + 1 * 0.1))"
proof -
  have dflt: "confidence_weights demo_canary_config = None" by (simp add: demo_canary_config_def)
  from C8_weighted_sum_clamped[OF error_spike_decision] dflt
  have "(0.7::real) = min 1 (max 0 (1 * 0.4 + 0 * 0.3 + 1 * 0.2 + 1 * 0.1))" by auto
  then show ?thesis using error_spike_decision dflt by simp
qed

lemma score_of_category:
  assumes "metrics_scores d =
             \<lparr>performance_score = calculate_performance_score (performance_analysis ar),
              error_score = calculate_error_score (error_analysis ar),
              resource_score = calculate_resource_score (resource_analysis ar),
              user_impact_score = calculate_user_impact_score (user_impact_analysis ar)\<rparr>"
  shows "score_of c (metrics_scores d) = 1 - penalty (worst_significant_impact (category_entries c ar))"
  unfolding assms
  by (cases c) (simp_all add: calculate_performance_score_def calculate_error_score_def
        calculate_resource_score_def calculate_user_impact_score_def category_score_eq)

lemma weighted_sum_mono:
  fixes p e r u p' e' r' u' wp we wr wu :: real
  assumes "p' * wp \<le> p * wp" "e' * we \<le> e * we" "r' * wr \<le> r * wr" "u' * wu \<le> u * wu"
  shows "min 1 (max 0 (p' * wp + e' * we + r' * wr + u' * wu))
         \<le> min 1 (max 0 (p * wp + e * we + r * wr + u * wu))"
  using assms by (simp add: min_def max_def)

text \<open>
  C5 (amended). Take two analyses under one configuration that differ in the worst
  significant impact of a single category \<open>c\<close>, the second being at least as bad there,
  the other categories' worst significant impacts being the same. If the weight
  configured for \<open>c\<close> is not negative, the overall score of the second decision is not
  above that of the first. The category's score is 1 minus the penalty of its worst
  significant impact.
\<close>

theorem C5_monotone_for_nonnegative_weight:
  assumes d: "make_promotion_decision cfg g ar = Inr d"
    and d': "make_promotion_decision cfg g' ar' = Inr d'"
    and others: "\<forall>c'. c' \<noteq> c \<longrightarrow>
        worst_significant_impact (category_entries c' ar')
          = worst_significant_impact (category_entries c' ar)"
    and worse: "impact_rank (worst_significant_impact (category_entries c ar))
                  \<le> impact_rank (worst_significant_impact (category_entries c ar'))"
    and w: "configured_weights cfg (weight_key c) = Some w" and nonneg: "0 \<le> w"
  shows "overall_score d' \<le> overall_score d
       \<and> score_of c (metrics_scores d) = 1 - penalty (worst_significant_impact (category_entries c ar))
       \<and> score_of c (metrics_scores d') = 1 - penalty (worst_significant_impact (category_entries c ar'))"
proof -
  from decision_shape[OF d] obtain wp we wr wu where
    wts: "configured_weights cfg ''performance_score'' = Some wp"
       "configured_weights cfg ''error_score'' = Some we"
       "configured_weights cfg ''resource_score'' = Some wr"
       "configured_weights cfg ''user_impact_score'' = Some wu"
    and m: "metrics_scores d =
             \<lparr>performance_score = calculate_performance_score (performance_analysis ar),
              error_score = calculate_error_score (error_analysis ar),
              resource_score = calculate_resource_score (resource_analysis ar),
              user_impact_score = calculate_user_impact_score (user_impact_analysis ar)\<rparr>"
    and o: "overall_score d =
             min 1 (max 0 (performance_score (metrics_scores d) * wp + error_score (metrics_scores d) * we
                  + resource_score (metrics_scores d) * wr + user_impact_score (metrics_scores d) * wu))"
    by blast
  from decision_shape[OF d'] wts have
    m': "metrics_scores d' =
             \<lparr>performance_score = calculate_performance_score (performance_analysis ar'),
              error_score = calculate_error_score (error_analysis ar'),
              resource_score = calculate_resource_score (resource_analysis ar'),
              user_impact_score = calculate_user_impact_score (user_impact_analysis ar')\<rparr>"
    and o': "overall_score d' =
             min 1 (max 0 (performance_score (metrics_scores d') * wp + error_score (metrics_scores d') * we
                  + resource_score (metrics_scores d') * wr + user_impact_score (metrics_scores d') * wu))"
    by auto
  note s = score_of_category[OF m] and s' = score_of_category[OF m']
  have same: "score_of c' (metrics_scores d') = score_of c' (metrics_scores d)" if "c' \<noteq> c" for c'
    using others that by (simp add: s s')
  have le: "score_of c (metrics_scores d') \<le> score_of c (metrics_scores d)"
    using penalty_mono[OF worse] by (simp add: s s')
  have part: "score_of c' (metrics_scores d') * x \<le> score_of c' (metrics_scores d) * x"
    if "c' = c \<longrightarrow> 0 \<le> x" for c' x
  proof (cases "c' = c")
    case True
    with that le show ?thesis by (simp add: mult_right_mono)
  next
    case False
    then show ?thesis by (simp add: same)
  qed
  have wc: "(Performance = c \<longrightarrow> 0 \<le> wp) \<and> (Error = c \<longrightarrow> 0 \<le> we)
          \<and> (Resource = c \<longrightarrow> 0 \<le> wr) \<and> (UserImpact = c \<longrightarrow> 0 \<le> wu)"
    using w nonneg wts by (cases c) auto
  have "overall_score d' \<le> overall_score d"
    unfolding o o'
    using weighted_sum_mono[OF part[of Performance wp] part[of Error we] part[of Resource wr]
        part[of UserImpact wu]] wc
    by simp
  then show ?thesis using s s' by simp
qed

lemma quiet_decision:
  "make_promotion_decision demo_canary_config demo_reasons quiet_analysis
     = Inr \<lparr>promote = True, overall_score = 1,
            metrics_scores = \<lparr>performance_score = 1, error_score = 1, resource_score = 1,
                               user_impact_score = 1\<rparr>,
            decision_confidence = 1, reasons = []\<rparr>"
  by (simp add: make_promotion_decision_def quiet_analysis_def
        calculate_performance_score_def calculate_error_score_def calculate_resource_score_def
        calculate_user_impact_score_def category_score_demo calculate_overall_score_def
        calculate_decision_confidence_def configured_weights_def default_confidence_weights_def
        demo_canary_config_def err_bind_def lookup_def required_def demo_reasons_def)

text \<open>
  C5 as stated fails for a configured weight below 0. With the performance weight
  at -0.5, raising the performance category from insignificant to high, all else equal,
  raises the overall score from 0.5 to 1.
\<close>

theorem C5_negative_weight_rewards_regression:
  "make_promotion_decision skewed_config demo_reasons quiet_analysis
     = Inr \<lparr>promote = False, overall_score = 0.5,
            metrics_scores = \<lparr>performance_score = 1, error_score = 1, resource_score = 1,
                               user_impact_score = 1\<rparr>,
            decision_confidence = 0.5, reasons = []\<rparr>
   \<and> make_promotion_decision skewed_config demo_reasons slow_analysis
     = Inr \<lparr>promote = True, overall_score = 1,
            metrics_scores = \<lparr>performance_score = 0, error_score = 1, resource_score = 1,
                               user_impact_score = 1\<rparr>,
            decision_confidence = 1, reasons = []\<rparr>
   \<and> worst_significant_impact (category_entries Performance quiet_analysis) = Insignificant
   \<and> worst_significant_impact (category_entries Performance slow_analysis) = High
   \<and> error_analysis slow_analysis = error_analysis quiet_analysis
   \<and> resource_analysis slow_analysis = resource_analysis quiet_analysis
   \<and> user_impact_analysis slow_analysis = user_impact_analysis quiet_analysis
   \<and> (0.5::real) < 1"
proof -
  have q: "make_promotion_decision skewed_config demo_reasons quiet_analysis
     = Inr \<lparr>promote = False, overall_score = 0.5,
            metrics_scores = \<lparr>performance_score = 1, error_score = 1, resource_score = 1,
                               user_impact_score = 1\<rparr>,
            decision_confidence = 0.5, reasons = []\<rparr>"
    by (simp add: make_promotion_decision_def quiet_analysis_def
        calculate_performance_score_def calculate_error_score_def calculate_resource_score_def
        calculate_user_impact_score_def category_score_demo calculate_overall_score_def
        calculate_decision_confidence_def configured_weights_def skewed_config_def
        demo_canary_config_def err_bind_def lookup_def required_def demo_reasons_def)
  have sl: "make_promotion_decision skewed_config demo_reasons slow_analysis
     = Inr \<lparr>promote = True, overall_score = 1,
            metrics_scores = \<lparr>performance_score = 0, error_score = 1, resource_score = 1,
                               user_impact_score = 1\<rparr>,
            decision_confidence = 1, reasons = []\<rparr>"
    by (simp add: make_promotion_decision_def quiet_analysis_def slow_analysis_def
        calculate_performance_score_def calculate_error_score_def calculate_resource_score_def
        calculate_user_impact_score_def category_score_demo calculate_overall_score_def
        calculate_decision_confidence_def configured_weights_def skewed_config_def
        demo_canary_config_def err_bind_def lookup_def required_def demo_reasons_def)
  have w: "worst_significant_impact (category_entries Performance quiet_analysis) = Insignificant"
    "worst_significant_impact (category_entries Performance slow_analysis) = High"
    by (simp_all add: quiet_analysis_def slow_analysis_def unchanged_def worse_def)
  have same: "error_analysis slow_analysis = error_analysis quiet_analysis"
    "resource_analysis slow_analysis = resource_analysis quiet_analysis"
    "user_impact_analysis slow_analysis = user_impact_analysis quiet_analysis"
    by (simp_all add: slow_analysis_def)
  show ?thesis using q sl w same by simp
qed

text \<open>
  With the default weights, raising the error category from insignificant to high lowers
  the overall score from 1 to 0.7.
\<close>

theorem C5_error_spike_lowers_score:
  "make_promotion_decision demo_canary_config demo_reasons quiet_analysis
     = Inr \<lparr>promote = True, overall_score = 1,
            metrics_scores = \<lparr>performance_score = 1, error_score = 1, resource_score = 1,
                               user_impact_score = 1\<rparr>,
            decision_confidence = 1, reasons = []\<rparr>
   \<and> make_promotion_decision demo_canary_config demo_reasons error_spike_analysis
     = Inr \<lparr>promote = False, overall_score = 0.7,
            metrics_scores = \<lparr>performance_score = 1, error_score = 0, resource_score = 1,
                               user_impact_score = 1\<rparr>,
            decision_confidence = 0.7, reasons = []\<rparr>
   \<and> configured_weights demo_canary_config (weight_key Error) = Some 0.3
   \<and> (0.7::real) \<le> 1"
proof -
  have others: "\<forall>c'. c' \<noteq> Error \<longrightarrow>
        worst_significant_impact (category_entries c' error_spike_analysis)
          = worst_significant_impact (category_entries c' quiet_analysis)"
  proof (intro allI impI)
    fix c' :: category assume "c' \<noteq> Error"
    then show "worst_significant_impact (category_entries c' error_spike_analysis)
          = worst_significant_impact (category_entries c' quiet_analysis)"
      by (cases c') (simp_all add: error_spike_analysis_def quiet_analysis_def)
  qed
  have worse: "impact_rank (worst_significant_impact (category_entries Error quiet_analysis))
                  \<le> impact_rank (worst_significant_impact (category_entries Error error_spike_analysis))"
    by (simp add: error_spike_analysis_def quiet_analysis_def unchanged_def worse_def)
  have w: "configured_weights demo_canary_config (weight_key Error) = Some 0.3"
    by (simp add: configured_weights_def demo_canary_config_def default_confidence_weights_def)
  have nonneg: "(0::real) \<le> 0.3" by simp
  from C5_monotone_for_nonnegative_weight[OF quiet_decision error_spike_decision others worse w nonneg]
  have "(0.7::real) \<le> 1" by simp
  then show ?thesis using quiet_decision error_spike_decision w by simp
qed

end
